theory Spec2Isabelle
  imports Complex_Main "HOL-Library.Multiset" "HOL-Library.Char_ord" "HOL-Library.List_Lexorder"
begin

section \<open>Python values\<close>

text \<open>
  The scripts read JSON documents with \<^verbatim>\<open>response.json()\<close> and inspect them with
  \<^verbatim>\<open>.get\<close>, \<^verbatim>\<open>len\<close>, truth tests and iteration. A parsed document is a
  value of \<open>json\<close>; Python's \<^verbatim>\<open>None\<close> is \<open>JNull\<close>. A \<open>JDict\<close>
  lists the items of a dict in insertion order (its keys are distinct). A \<open>char\<close> stands for one
  character of a Python string, by its code point: the strings of the model are those whose
  characters have code points below 256.
\<close>

datatype json =
    JNull
  | JBool bool
  | JInt int
  | JFloat rat
  | JStr string
  | JList "json list"
  | JDict "(string \<times> json) list"

text \<open>
  The code tells \<^verbatim>\<open>requests.exceptions.Timeout\<close> from every other exception, and
  nothing more: \<open>OtherError\<close> stands for a connection error, a body that is not JSON, an
  \<^verbatim>\<open>AttributeError\<close> and a \<^verbatim>\<open>TypeError\<close> alike.
\<close>

datatype py_exception = Timeout | OtherError

text \<open>Sequencing of computations that may raise: the first exception ends the computation.\<close>

definition and_then :: "py_exception + 'a \<Rightarrow> ('a \<Rightarrow> py_exception + 'b) \<Rightarrow> py_exception + 'b" where
  "and_then m f = (case m of Inl e \<Rightarrow> Inl e | Inr x \<Rightarrow> f x)"

text \<open>Python's truth test \<^verbatim>\<open>if v:\<close>.\<close>

fun truthy :: "json \<Rightarrow> bool" where
  "truthy JNull = False"
| "truthy (JBool b) = b"
| "truthy (JInt i) = (i \<noteq> 0)"
| "truthy (JFloat q) = (q \<noteq> 0)"
| "truthy (JStr s) = (s \<noteq> [])"
| "truthy (JList xs) = (xs \<noteq> [])"
| "truthy (JDict kvs) = (kvs \<noteq> [])"

text \<open>\<^verbatim>\<open>d.get(key, default)\<close>: only a dict has the method; any other value raises.\<close>

fun py_get :: "json \<Rightarrow> string \<Rightarrow> json \<Rightarrow> py_exception + json" where
  "py_get (JDict kvs) k d = Inr (case map_of kvs k of None \<Rightarrow> d | Some v \<Rightarrow> v)"
| "py_get _ k d = Inl OtherError"

text \<open>\<^verbatim>\<open>len(v)\<close>: defined on lists, strings and dicts.\<close>

fun py_len :: "json \<Rightarrow> py_exception + nat" where
  "py_len (JList xs) = Inr (length xs)"
| "py_len (JStr s) = Inr (length s)"
| "py_len (JDict kvs) = Inr (length kvs)"
| "py_len _ = Inl OtherError"

text \<open>
  Iteration \<^verbatim>\<open>for x in v\<close>: a list gives its elements, a string its characters, a
  dict its keys; anything else raises.
\<close>

fun py_iter :: "json \<Rightarrow> py_exception + json list" where
  "py_iter (JList xs) = Inr xs"
| "py_iter (JStr s) = Inr (map (\<lambda>c. JStr [c]) s)"
| "py_iter (JDict kvs) = Inr (map (\<lambda>kv. JStr (fst kv)) kvs)"
| "py_iter _ = Inl OtherError"

text \<open>\<^verbatim>\<open>sub in s\<close> on strings: \<open>sub\<close> occurs in \<open>s\<close> as a contiguous block.\<close>

fun py_in :: "string \<Rightarrow> string \<Rightarrow> bool" where
  "py_in sub [] = (sub = [])"
| "py_in sub (c # cs) = (take (length sub) (c # cs) = sub \<or> py_in sub cs)"

text \<open>
  \<^verbatim>\<open>', '.join(v)\<close>: \<open>v\<close> must be iterable and every item a string.
\<close>

fun str_items :: "json list \<Rightarrow> py_exception + string list" where
  "str_items [] = Inr []"
| "str_items (JStr s # xs) = and_then (str_items xs) (\<lambda>ss. Inr (s # ss))"
| "str_items (_ # xs) = Inl OtherError"

fun intercalate :: "string \<Rightarrow> string list \<Rightarrow> string" where
  "intercalate sep [] = []"
| "intercalate sep [s] = s"
| "intercalate sep (s # t # ss) = s @ sep @ intercalate sep (t # ss)"

definition py_join :: "string \<Rightarrow> json \<Rightarrow> py_exception + string" where
  "py_join sep v =
     and_then (py_iter v) (\<lambda>xs. and_then (str_items xs) (\<lambda>ss. Inr (intercalate sep ss)))"

section \<open>check\_openapi.py: grouping the endpoints\<close>

text \<open>
  Lines 17 to 33 of \<^verbatim>\<open>check_openapi.py\<close>: five lists, filled in one pass over
  \<^verbatim>\<open>sorted(paths.keys())\<close>; the first test that matches decides the list.
\<close>

record endpoint_groups =
  system_endpoints :: "string list"
  pipeline_endpoints :: "string list"
  job_endpoints :: "string list"
  debug_endpoints :: "string list"
  other_endpoints :: "string list"

definition no_endpoints :: endpoint_groups where
  "no_endpoints = \<lparr>system_endpoints = [], pipeline_endpoints = [], job_endpoints = [],
     debug_endpoints = [], other_endpoints = []\<rparr>"

definition group_path :: "endpoint_groups \<Rightarrow> string \<Rightarrow> endpoint_groups" where
  "group_path g path =
     (if py_in ''/system/'' path then g\<lparr>system_endpoints := system_endpoints g @ [path]\<rparr>
      else if py_in ''/pipeline'' path then g\<lparr>pipeline_endpoints := pipeline_endpoints g @ [path]\<rparr>
      else if py_in ''/job'' path then g\<lparr>job_endpoints := job_endpoints g @ [path]\<rparr>
      else if py_in ''/debug/'' path then g\<lparr>debug_endpoints := debug_endpoints g @ [path]\<rparr>
      else g\<lparr>other_endpoints := other_endpoints g @ [path]\<rparr>)"

definition group_endpoints :: "string list \<Rightarrow> endpoint_groups" where
  "group_endpoints paths = foldl group_path no_endpoints (sort paths)"

text \<open>All the paths of the five lists, as a multiset.\<close>

definition grouped :: "endpoint_groups \<Rightarrow> string multiset" where
  "grouped g = mset (system_endpoints g) + mset (pipeline_endpoints g) + mset (job_endpoints g)
     + mset (debug_endpoints g) + mset (other_endpoints g)"

text \<open>The five lists, in the order the script prints them.\<close>

definition buckets :: "endpoint_groups \<Rightarrow> string list list" where
  "buckets g = [system_endpoints g, pipeline_endpoints g, job_endpoints g, debug_endpoints g,
     other_endpoints g]"

section \<open>HTTP requests and their outcomes\<close>

text \<open>
  A request either raises or returns a response. Of a response the scripts read the status
  code, the parsed body (\<^verbatim>\<open>resp.json()\<close>, which raises when the body is not JSON:
  \<open>None\<close>) and, for the event stream, the lines that \<^verbatim>\<open>resp.iter_lines\<close> yields.
  A line is text, or bytes when the response declares no encoding (\<open>RawLine\<close>); the
  iteration itself may raise (\<open>StreamRaises\<close>).
\<close>

datatype sse_item = Line string | RawLine string | StreamRaises py_exception

record response =
  status_code :: int
  json_body :: "json option"
  stream :: "sse_item list"

datatype http_outcome = Raises py_exception | Responds response

text \<open>
  The remote service: the outcome of the n-th request of a run (counted from 0). The scripts
  send their requests one after the other, so this covers every behaviour of the service.
\<close>

type_synonym server = "nat \<Rightarrow> http_outcome"

definition resp_json :: "response \<Rightarrow> py_exception + json" where
  "resp_json resp = (case json_body resp of None \<Rightarrow> Inl OtherError | Some v \<Rightarrow> Inr v)"

text \<open>
  \<^verbatim>\<open>response.raise_for_status()\<close> of the requests library raises for the client and
  server error codes, 400 to 599, and for no other status.
\<close>

definition raise_for_status :: "response \<Rightarrow> py_exception + unit" where
  "raise_for_status resp =
     (if 400 \<le> status_code resp \<and> status_code resp < 600 then Inl OtherError else Inr ())"

section \<open>test\_api\_quick.py: the probes\<close>

text \<open>
  A detail string is kept as the pieces of its f-string: literal text, an integer, a JSON
  value and an exception are formatted by Python's \<^verbatim>\<open>str\<close>, which is not modelled.
\<close>

datatype piece = Lit string | Num int | Val json | Exc py_exception

record log_entry =
  test :: string
  entry_passed :: bool
  entry_details :: "piece list"

text \<open>
  \<^verbatim>\<open>self.results\<close>, without the timestamps, and the number of requests the tester has
  sent so far (each probe sends exactly one).
\<close>

record tester =
  passed :: nat
  failed :: nat
  details :: "log_entry list"
  requests_sent :: nat

definition new_tester :: tester where
  "new_tester = \<lparr>passed = 0, failed = 0, details = [], requests_sent = 0\<rparr>"

definition log_result :: "string \<Rightarrow> bool \<Rightarrow> piece list \<Rightarrow> tester \<Rightarrow> tester" where
  "log_result test_name ok d t =
     (if ok then t\<lparr>passed := passed t + 1\<rparr> else t\<lparr>failed := failed t + 1\<rparr>)
       \<lparr>details := details t @ [\<lparr>test = test_name, entry_passed = ok, entry_details = d\<rparr>]\<rparr>"

text \<open>\<^verbatim>\<open>self.session.get\<close> and \<^verbatim>\<open>self.session.post\<close>: the next outcome of the service.\<close>

definition session_request :: "server \<Rightarrow> tester \<Rightarrow> http_outcome \<times> tester" where
  "session_request srv t = (srv (requests_sent t), t\<lparr>requests_sent := Suc (requests_sent t)\<rparr>)"

text \<open>
  The body of a \<^verbatim>\<open>try\<close> block that starts with the request: a request that raises
  leaves the block at once.
\<close>

definition attempt :: "http_outcome \<Rightarrow> (response \<Rightarrow> py_exception + 'a) \<Rightarrow> py_exception + 'a" where
  "attempt out body = (case out of Raises e \<Rightarrow> Inl e | Responds resp \<Rightarrow> body resp)"

type_synonym verdict = "bool \<times> piece list"

text \<open>
  The end of the \<^verbatim>\<open>try\<close> block logs the verdict; the handler
  \<^verbatim>\<open>except Exception as e\<close> logs a failure.
\<close>

definition record_verdict :: "string \<Rightarrow> py_exception + verdict \<Rightarrow> tester \<Rightarrow> tester" where
  "record_verdict test_name res t =
     (case res of
        Inl e \<Rightarrow> log_result test_name False [Lit ''Exception: '', Exc e] t
      | Inr v \<Rightarrow> log_result test_name (fst v) (snd v) t)"

text \<open>What \<open>record_verdict\<close> logs for a result: the verdict and the detail.\<close>

definition verdict_passed :: "py_exception + verdict \<Rightarrow> bool" where
  "verdict_passed res = (case res of Inl e \<Rightarrow> False | Inr v \<Rightarrow> fst v)"

definition verdict_details :: "py_exception + verdict \<Rightarrow> piece list" where
  "verdict_details res = (case res of Inl e \<Rightarrow> [Lit ''Exception: '', Exc e] | Inr v \<Rightarrow> snd v)"

text \<open>The \<^verbatim>\<open>try\<close> block was left by an exception.\<close>

definition raised :: "py_exception + 'a \<Rightarrow> bool" where
  "raised res = (case res of Inl e \<Rightarrow> True | Inr v \<Rightarrow> False)"

text \<open>The body of the response parses as a JSON object (a Python dict).\<close>

definition json_object :: "response \<Rightarrow> bool" where
  "json_object resp = (case json_body resp of Some (JDict kvs) \<Rightarrow> True | _ \<Rightarrow> False)"

text \<open>
  The detail as a string, for any way of formatting integers, JSON values and exceptions
  (the three parameters stand for Python's \<^verbatim>\<open>str\<close>).
\<close>

fun render_piece :: "(int \<Rightarrow> string) \<Rightarrow> (json \<Rightarrow> string) \<Rightarrow> (py_exception \<Rightarrow> string) \<Rightarrow> piece \<Rightarrow> string" where
  "render_piece fi fj fe (Lit s) = s"
| "render_piece fi fj fe (Num n) = fi n"
| "render_piece fi fj fe (Val v) = fj v"
| "render_piece fi fj fe (Exc e) = fe e"

definition render :: "(int \<Rightarrow> string) \<Rightarrow> (json \<Rightarrow> string) \<Rightarrow> (py_exception \<Rightarrow> string) \<Rightarrow> piece list \<Rightarrow> string" where
  "render fi fj fe ps = concat (map (render_piece fi fj fe) ps)"

definition status_detail :: "response \<Rightarrow> piece list" where
  "status_detail resp = [Lit ''Status: '', Num (status_code resp)]"

subsection \<open>test\_health\_endpoints\<close>

definition basic_health_check :: "http_outcome \<Rightarrow> py_exception + verdict" where
  "basic_health_check out = attempt out (\<lambda>resp.
     let passed = (status_code resp = 200); details = status_detail resp in
     if passed then
       and_then (resp_json resp) (\<lambda>data.
       and_then (py_get data ''status'' (JStr ''unknown'')) (\<lambda>v.
       Inr (passed, details @ [Lit '', Server status: '', Val v])))
     else Inr (passed, details))"

definition detailed_health_check :: "http_outcome \<Rightarrow> py_exception + verdict" where
  "detailed_health_check out = attempt out (\<lambda>resp.
     let passed = (status_code resp = 200); details = status_detail resp in
     if passed then
       and_then (resp_json resp) (\<lambda>data.
       and_then (py_get data ''services'' (JDict [])) (\<lambda>services.
       and_then (py_get services ''database'' (JDict [])) (\<lambda>database.
       and_then (py_get database ''status'' (JStr ''unknown'')) (\<lambda>db_status.
       Inr (passed, details @ [Lit '', DB status: '', Val db_status])))))
     else Inr (passed, details))"

definition test_health_endpoints :: "server \<Rightarrow> tester \<Rightarrow> tester" where
  "test_health_endpoints srv t0 =
     (let (out1, t1) = session_request srv t0;
          t2 = record_verdict ''Basic Health Check'' (basic_health_check out1) t1;
          (out2, t3) = session_request srv t2
      in record_verdict ''Detailed Health Check'' (detailed_health_check out2) t3)"

subsection \<open>test\_authentication\<close>

definition authentication_test :: "http_outcome \<Rightarrow> py_exception + verdict" where
  "authentication_test out = attempt out (\<lambda>resp.
     let passed = (status_code resp \<in> set [200, 401]); details = status_detail resp in
     if status_code resp = 200 then
       and_then (resp_json resp) (\<lambda>data.
       and_then (py_get data ''total'' (JInt 0)) (\<lambda>total.
       Inr (passed, details @ [Lit '', Jobs accessible: '', Val total, Lit '' jobs''])))
     else if status_code resp = 401 then
       Inr (passed, details @ [Lit '' (Authentication required - expected)''])
     else Inr (passed, details))"

definition token_debug_info :: "http_outcome \<Rightarrow> py_exception + verdict" where
  "token_debug_info out = attempt out (\<lambda>resp.
     if status_code resp = 200 then
       and_then (resp_json resp) (\<lambda>data.
       and_then (py_get data ''token'' (JDict [])) (\<lambda>token.
       and_then (py_get token ''valid'' (JBool False)) (\<lambda>token_valid.
       and_then (py_get token ''permissions'' (JList [])) (\<lambda>permissions.
       and_then (py_len permissions) (\<lambda>n.
       Inr (True, [Lit ''Token valid: '', Val token_valid, Lit '', Permissions: '', Num (int n)]))))))
     else if status_code resp = 404 then
       Inr (True, [Lit ''Endpoint not implemented yet (expected)''])
     else Inr (False, status_detail resp))"

definition test_authentication :: "server \<Rightarrow> tester \<Rightarrow> tester" where
  "test_authentication srv t0 =
     (let (out1, t1) = session_request srv t0;
          t2 = record_verdict ''Authentication Test'' (authentication_test out1) t1;
          (out2, t3) = session_request srv t2
      in record_verdict ''Token Debug Info'' (token_debug_info out2) t3)"

subsection \<open>test\_pipelines\<close>

text \<open>\<^verbatim>\<open>v[:3]\<close>: lists and strings can be sliced.\<close>

fun py_slice3 :: "json \<Rightarrow> py_exception + json list" where
  "py_slice3 (JList xs) = Inr (take 3 xs)"
| "py_slice3 (JStr s) = Inr (map (\<lambda>c. JStr [c]) (take 3 s))"
| "py_slice3 _ = Inl OtherError"

text \<open>\<^verbatim>\<open>[p.get(key, default) for p in ps]\<close>\<close>

fun get_each :: "json list \<Rightarrow> string \<Rightarrow> json \<Rightarrow> py_exception + json list" where
  "get_each [] k d = Inr []"
| "get_each (p # ps) k d =
     and_then (py_get p k d) (\<lambda>v. and_then (get_each ps k d) (\<lambda>vs. Inr (v # vs)))"

definition pipeline_list :: "http_outcome \<Rightarrow> py_exception + verdict" where
  "pipeline_list out = attempt out (\<lambda>resp.
     let passed = (status_code resp = 200); details = status_detail resp in
     if passed then
       and_then (resp_json resp) (\<lambda>data.
       and_then (py_get data ''pipelines'' (JList [])) (\<lambda>pipelines.
       and_then (py_len pipelines) (\<lambda>n.
       let details = details @ [Lit '', Available: '', Num (int n), Lit '' pipelines''] in
       if truthy pipelines then
         and_then (py_slice3 pipelines) (\<lambda>ps.
         and_then (get_each ps ''name'' (JStr ''unknown'')) (\<lambda>pipeline_names.
         and_then (py_join '', '' (JList pipeline_names)) (\<lambda>joined.
         Inr (passed, details @ [Lit '' ('', Lit joined, Lit '')'']))))
       else Inr (passed, details))))
     else Inr (passed, details))"

definition pipeline_debug_info :: "http_outcome \<Rightarrow> py_exception + verdict" where
  "pipeline_debug_info out = attempt out (\<lambda>resp.
     if status_code resp = 200 then
       and_then (resp_json resp) (\<lambda>data.
       and_then (py_get data ''pipelines'' (JList [])) (\<lambda>pipelines.
       and_then (py_len pipelines) (\<lambda>n.
       Inr (True, [Lit ''Debug info available for '', Num (int n), Lit '' pipelines'']))))
     else if status_code resp = 404 then
       Inr (True, [Lit ''Debug endpoint not implemented yet (expected)''])
     else Inr (False, status_detail resp))"

definition test_pipelines :: "server \<Rightarrow> tester \<Rightarrow> tester" where
  "test_pipelines srv t0 =
     (let (out1, t1) = session_request srv t0;
          t2 = record_verdict ''Pipeline List'' (pipeline_list out1) t1;
          (out2, t3) = session_request srv t2
      in record_verdict ''Pipeline Debug Info'' (pipeline_debug_info out2) t3)"

subsection \<open>test\_job\_endpoints\<close>

definition job_list :: "http_outcome \<Rightarrow> py_exception + verdict" where
  "job_list out = attempt out (\<lambda>resp.
     let passed = (status_code resp \<in> set [200, 401]); details = status_detail resp in
     if status_code resp = 200 then
       and_then (resp_json resp) (\<lambda>data.
       and_then (py_get data ''total'' (JInt 0)) (\<lambda>total.
       Inr (passed, details @ [Lit '', Total jobs: '', Val total])))
     else Inr (passed, details))"

text \<open>
  The submission probe also yields the job id: \<^verbatim>\<open>job_id\<close> is assigned on status 201,
  once the body is parsed, and is \<^verbatim>\<open>None\<close> otherwise.
\<close>

definition job_submission :: "http_outcome \<Rightarrow> py_exception + verdict \<times> json" where
  "job_submission out = attempt out (\<lambda>resp.
     let passed = (status_code resp \<in> set [201, 401, 422]); details = status_detail resp in
     if status_code resp = 201 then
       and_then (resp_json resp) (\<lambda>job_data.
       and_then (py_get job_data ''id'' JNull) (\<lambda>job_id.
       Inr ((passed, details @ [Lit '', Job ID: '', Val job_id]), job_id)))
     else if status_code resp = 401 then
       Inr ((passed, details @ [Lit '' (Authentication required)'']), JNull)
     else if status_code resp = 422 then
       Inr ((passed, details @ [Lit '' (Validation error - expected for mock data)'']), JNull)
     else Inr ((passed, details), JNull))"

definition job_status_retrieval :: "http_outcome \<Rightarrow> py_exception + verdict" where
  "job_status_retrieval out = attempt out (\<lambda>resp.
     let passed = (status_code resp = 200); details = status_detail resp in
     if passed then
       and_then (resp_json resp) (\<lambda>job_data.
       and_then (py_get job_data ''status'' (JStr ''unknown'')) (\<lambda>v.
       Inr (passed, details @ [Lit '', Job status: '', Val v])))
     else Inr (passed, details))"

text \<open>The job id the submission left in \<^verbatim>\<open>job_id\<close>: \<^verbatim>\<open>None\<close> after an exception.\<close>

definition submitted_id :: "py_exception + verdict \<times> json \<Rightarrow> json" where
  "submitted_id res = (case res of Inl e \<Rightarrow> JNull | Inr r \<Rightarrow> snd r)"

text \<open>The verdict of the submission, as the \<^verbatim>\<open>try\<close> block logs it.\<close>

definition submission_verdict :: "py_exception + verdict \<times> json \<Rightarrow> py_exception + verdict" where
  "submission_verdict res = and_then res (\<lambda>r. Inr (fst r))"

definition test_job_endpoints :: "server \<Rightarrow> tester \<Rightarrow> json \<times> tester" where
  "test_job_endpoints srv t0 =
     (let (out1, t1) = session_request srv t0;
          t2 = record_verdict ''Job List'' (job_list out1) t1;
          (out2, t3) = session_request srv t2;
          sub = job_submission out2;
          job_id = submitted_id sub;
          t4 = record_verdict ''Job Submission'' (submission_verdict sub) t3
      in if truthy job_id then
           (let (out3, t5) = session_request srv t4
            in (job_id, record_verdict ''Job Status Retrieval'' (job_status_retrieval out3) t5))
         else (job_id, t4))"

subsection \<open>test\_missing\_endpoints\<close>

definition missing_endpoints :: "(string \<times> string) list" where
  "missing_endpoints =
     [(''/api/v1/events/stream'', ''SSE Endpoint''),
      (''/api/v1/jobs/123/results'', ''Job Results Download''),
      (''/api/v1/jobs/123/artifacts'', ''Job Artifacts''),
      (''/api/v1/videos'', ''Video Upload'')]"

definition missing_endpoint :: "http_outcome \<Rightarrow> py_exception + verdict" where
  "missing_endpoint out = attempt out (\<lambda>resp.
     let expected_404 = (status_code resp = 404); details = status_detail resp in
     if \<not> expected_404 then Inr (True, details @ [Lit '' (Unexpectedly implemented!)''])
     else Inr (True, details @ [Lit '' (Missing as expected)'']))"

fun missing_loop :: "server \<Rightarrow> (string \<times> string) list \<Rightarrow> tester \<Rightarrow> tester" where
  "missing_loop srv [] t = t"
| "missing_loop srv ((endpoint, name) # rest) t =
     (let (out, t1) = session_request srv t
      in missing_loop srv rest (record_verdict (name @ '' Endpoint'') (missing_endpoint out) t1))"

definition test_missing_endpoints :: "server \<Rightarrow> tester \<Rightarrow> tester" where
  "test_missing_endpoints srv t = missing_loop srv missing_endpoints t"

subsection \<open>test\_debug\_endpoints\<close>

definition debug_endpoint_list :: "(string \<times> string) list" where
  "debug_endpoint_list =
     [(''/api/v1/debug/server-info'', ''Server Info''),
      (''/api/v1/debug/token-info'', ''Token Info''),
      (''/api/v1/debug/pipelines'', ''Pipeline Debug''),
      (''/api/v1/debug/request-log'', ''Request Log'')]"

definition debug_endpoint :: "http_outcome \<Rightarrow> py_exception + verdict" where
  "debug_endpoint out = attempt out (\<lambda>resp.
     let details =
           (if status_code resp = 200 then [Lit ''Debug endpoint working'']
            else if status_code resp = 404 then [Lit ''Not implemented yet (expected)'']
            else if status_code resp = 401 then [Lit ''Authentication required'']
            else status_detail resp);
         passed = (status_code resp \<in> set [200, 404, 401])
     in Inr (passed, details))"

fun debug_loop :: "server \<Rightarrow> (string \<times> string) list \<Rightarrow> tester \<Rightarrow> tester" where
  "debug_loop srv [] t = t"
| "debug_loop srv ((endpoint, name) # rest) t =
     (let (out, t1) = session_request srv t
      in debug_loop srv rest (record_verdict (name @ '' Debug'') (debug_endpoint out) t1))"

definition test_debug_endpoints :: "server \<Rightarrow> tester \<Rightarrow> tester" where
  "test_debug_endpoints srv t = debug_loop srv debug_endpoint_list t"

subsection \<open>test\_sse\_connection\<close>

text \<open>
  \<^verbatim>\<open>str.strip()\<close> removes the characters for which \<^verbatim>\<open>str.isspace\<close> holds. Among
  the code points below 256 these are tab to carriage return (9 to 13), the four separators
  28 to 31, the space (32), the next-line control U+0085 (133) and the no-break space
  U+00A0 (160).
\<close>

definition is_space :: "char \<Rightarrow> bool" where
  "is_space c =
     (let n = (of_char c :: nat)
      in (9 \<le> n \<and> n \<le> 13) \<or> (28 \<le> n \<and> n \<le> 32) \<or> n = 133 \<or> n = 160)"

definition py_strip :: "string \<Rightarrow> string" where
  "py_strip s = rev (dropWhile is_space (rev (dropWhile is_space s)))"

text \<open>
  The loop over \<^verbatim>\<open>resp.iter_lines(decode_unicode=True)\<close> with its \<^verbatim>\<open>else\<close> branch,
  inside the inner \<^verbatim>\<open>try\<close>: the first text line that starts with \<^verbatim>\<open>data:\<close>
  passes; a stream that ends without one fails; an exception fails, whatever it is. On a
  non-empty bytes line \<^verbatim>\<open>line.startswith('data:')\<close> raises a \<^verbatim>\<open>TypeError\<close>.
\<close>

fun read_events :: "sse_item list \<Rightarrow> verdict" where
  "read_events [] = (False, [Lit ''No events received''])"
| "read_events (Line line # rest) =
     (if line \<noteq> [] \<and> take 5 line = ''data:'' then
        (let event_data = py_strip (drop 5 line)
         in (True, [Lit ''Received SSE event: '', Lit (take 50 event_data), Lit ''...'']))
      else read_events rest)"
| "read_events (RawLine line # rest) =
     (if line \<noteq> [] then (False, [Lit ''Stream error: '', Exc OtherError])
      else read_events rest)"
| "read_events (StreamRaises e # rest) = (False, [Lit ''Stream error: '', Exc e])"

text \<open>
  A data line is received: the first item of the stream that is a data line, a non-empty
  bytes line or an exception is a data line.
\<close>

definition data_line :: "sse_item \<Rightarrow> bool" where
  "data_line item = (case item of Line line \<Rightarrow> take 5 line = ''data:'' | _ \<Rightarrow> False)"

definition breaks_stream :: "sse_item \<Rightarrow> bool" where
  "breaks_stream item =
     (case item of Line line \<Rightarrow> False | RawLine line \<Rightarrow> line \<noteq> [] | StreamRaises e \<Rightarrow> True)"

definition data_line_received :: "sse_item list \<Rightarrow> bool" where
  "data_line_received items =
     (case find (\<lambda>item. data_line item \<or> breaks_stream item) items of
        None \<Rightarrow> False
      | Some item \<Rightarrow> data_line item)"

definition sse_connection :: "http_outcome \<Rightarrow> verdict" where
  "sse_connection out =
     (case out of
        Raises Timeout \<Rightarrow> (True, [Lit ''Connection timeout (expected if not implemented)''])
      | Raises e \<Rightarrow> (False, [Lit ''Exception: '', Exc e])
      | Responds resp \<Rightarrow>
          if status_code resp = 200 then read_events (stream resp)
          else if status_code resp = 404 then
            (True, [Lit ''SSE endpoint not implemented yet (expected)''])
          else (False, status_detail resp))"

definition test_sse_connection :: "server \<Rightarrow> tester \<Rightarrow> tester" where
  "test_sse_connection srv t0 =
     (let (out, t1) = session_request srv t0;
          v = sse_connection out
      in log_result ''SSE Connection'' (fst v) (snd v) t1)"

subsection \<open>run\_all\_tests and main\<close>

definition run_all_tests :: "server \<Rightarrow> tester \<Rightarrow> json \<times> tester" where
  "run_all_tests srv t0 =
     (let t1 = test_health_endpoints srv t0;
          t2 = test_authentication srv t1;
          t3 = test_pipelines srv t2;
          (job_id, t4) = test_job_endpoints srv t3;
          t5 = test_missing_endpoints srv t4;
          t6 = test_debug_endpoints srv t5;
          t7 = test_sse_connection srv t6
      in (job_id, t7))"

definition exit_code :: "tester \<Rightarrow> int" where
  "exit_code results = (if failed results > 0 then 1 else 0)"

text \<open>
  The counters agree with the log: \<open>passed\<close> counts the logged passes, \<open>failed\<close> the
  logged failures, and the log has one entry for each request sent.
\<close>

definition counted :: "tester \<Rightarrow> bool" where
  "counted t \<longleftrightarrow>
     passed t = length (filter entry_passed (details t))
     \<and> failed t = length (filter (\<lambda>e. \<not> entry_passed e) (details t))
     \<and> requests_sent t = length (details t)"

section \<open>diagnose\_failed\_jobs.py: the triage of failed jobs\<close>

text \<open>
  The three fetchers share one shape: any exception (the request raising, an error status,
  a body that is not JSON) is caught and \<^verbatim>\<open>None\<close> is returned; otherwise the parsed
  body is.
\<close>

definition fetch_json :: "http_outcome \<Rightarrow> json" where
  "fetch_json out =
     (case attempt out (\<lambda>resp. and_then (raise_for_status resp) (\<lambda>_. resp_json resp)) of
        Inl e \<Rightarrow> JNull
      | Inr v \<Rightarrow> v)"

definition get_all_jobs :: "http_outcome \<Rightarrow> json" where
  "get_all_jobs out = fetch_json out"

definition get_job_details :: "http_outcome \<Rightarrow> json" where
  "get_job_details out = fetch_json out"

definition get_server_health :: "http_outcome \<Rightarrow> json" where
  "get_server_health out = fetch_json out"

text \<open>
  \<^verbatim>\<open>[job for job in jobs if job.get('status') in wanted]\<close>: a job that is not a dict
  raises.
\<close>

fun select_jobs :: "json list \<Rightarrow> json list \<Rightarrow> py_exception + json list" where
  "select_jobs wanted [] = Inr []"
| "select_jobs wanted (job # jobs) =
     and_then (py_get job ''status'' JNull) (\<lambda>s.
     and_then (select_jobs wanted jobs) (\<lambda>rest.
     Inr (if s \<in> set wanted then job # rest else rest)))"

record job_info =
  job_id :: json
  status :: json
  created_at :: json
  updated_at :: json
  video_filename :: json
  pipelines :: json
  error_message :: json
  job_details :: json

text \<open>
  The dict \<^verbatim>\<open>job_info\<close> of lines 139 to 148. Its \<^verbatim>\<open>error_message\<close> is the
  conditional expression
  \<^verbatim>\<open>(job.get('error_message') or details.get('error_message')) if details else None\<close>:
  the condition on \<^verbatim>\<open>details\<close> governs the whole disjunction, and the right operand of
  \<^verbatim>\<open>or\<close> is evaluated only when the left one is false.
\<close>

definition resolve_error_message :: "json \<Rightarrow> json \<Rightarrow> py_exception + json" where
  "resolve_error_message job dets =
     (if truthy dets then
        and_then (py_get job ''error_message'' JNull) (\<lambda>m.
        if truthy m then Inr m else py_get dets ''error_message'' JNull)
      else Inr JNull)"

definition build_job_info :: "json \<Rightarrow> json \<Rightarrow> json \<Rightarrow> py_exception + job_info" where
  "build_job_info job jid dets =
     and_then (py_get job ''status'' JNull) (\<lambda>st.
     and_then (py_get job ''created_at'' JNull) (\<lambda>created.
     and_then (py_get job ''updated_at'' JNull) (\<lambda>updated.
     and_then (py_get job ''video_filename'' JNull) (\<lambda>video.
     and_then (py_get job ''pipelines'' (JList [])) (\<lambda>pls.
     and_then (resolve_error_message job dets) (\<lambda>msg.
     Inr \<lparr>job_id = jid, status = st, created_at = created, updated_at = updated,
          video_filename = video, pipelines = pls, error_message = msg,
          job_details = dets\<rparr>))))))"

text \<open>
  What the loop prints of a \<^verbatim>\<open>job_info\<close>: only whether printing raises matters here.
  The pipelines are joined with \<^verbatim>\<open>', '.join\<close> when they are true.
\<close>

definition print_job_info :: "job_info \<Rightarrow> py_exception + unit" where
  "print_job_info info =
     (if truthy (pipelines info) then and_then (py_join '', '' (pipelines info)) (\<lambda>_. Inr ())
      else Inr ())"

text \<open>
  The loop of lines 130 to 158 over the failed jobs; \<open>n\<close> is the number of requests sent
  before the job's details are fetched.
\<close>

fun analyze_loop :: "server \<Rightarrow> nat \<Rightarrow> json list \<Rightarrow> py_exception + job_info list" where
  "analyze_loop srv n [] = Inr []"
| "analyze_loop srv n (job # rest) =
     and_then (py_get job ''id'' JNull) (\<lambda>jid.
     let details = get_job_details (srv n) in
     and_then (build_job_info job jid details) (\<lambda>info.
     and_then (print_job_info info) (\<lambda>_.
     and_then (analyze_loop srv (Suc n) rest) (\<lambda>infos.
     Inr (info # infos)))))"

text \<open>The dict written to \<^verbatim>\<open>failed_jobs_diagnostics.json\<close>, without its timestamp.\<close>

record diagnostics =
  server_url :: string
  server_version :: json
  server_status :: json
  summary_total_jobs :: nat
  summary_completed :: nat
  summary_pending :: nat
  summary_failed :: nat
  failed_jobs :: "job_info list"

text \<open>
  How a run of \<^verbatim>\<open>analyze_failed_jobs\<close> ends when no exception escapes it: one of the
  three early returns, or the file written with the diagnostics.
\<close>

datatype run_end = CannotConnect | FailedToFetchJobs | NoFailedJobs | Saved diagnostics

definition API_BASE :: string where
  "API_BASE = ''http://localhost:18011''"

definition failed_statuses :: "json list" where
  "failed_statuses = [JStr ''failed'', JStr ''error'', JStr ''cancelled'']"

definition completed_statuses :: "json list" where
  "completed_statuses = [JStr ''completed'']"

definition pending_statuses :: "json list" where
  "pending_statuses = [JStr ''pending'', JStr ''processing'']"

definition analyze_failed_jobs :: "server \<Rightarrow> py_exception + run_end" where
  "analyze_failed_jobs srv =
     (let health = get_server_health (srv 0) in
      if \<not> truthy health then Inr CannotConnect
      else
        and_then (py_get health ''version'' (JStr ''Unknown'')) (\<lambda>_.
        and_then (py_get health ''status'' (JStr ''Unknown'')) (\<lambda>_.
        let jobs_response = get_all_jobs (srv 1) in
        if \<not> truthy jobs_response then Inr FailedToFetchJobs
        else
          and_then (py_get jobs_response ''jobs'' (JList [])) (\<lambda>jobs.
          and_then (py_len jobs) (\<lambda>total.
          and_then (py_iter jobs) (\<lambda>js.
          and_then (select_jobs failed_statuses js) (\<lambda>failed_js.
          and_then (select_jobs completed_statuses js) (\<lambda>completed_js.
          and_then (select_jobs pending_statuses js) (\<lambda>pending_js.
          if failed_js = [] then Inr NoFailedJobs
          else
            and_then (py_get health ''version'' JNull) (\<lambda>version.
            and_then (py_get health ''status'' JNull) (\<lambda>hstatus.
            and_then (analyze_loop srv 2 failed_js) (\<lambda>infos.
            Inr (Saved \<lparr>server_url = API_BASE, server_version = version,
                        server_status = hstatus, summary_total_jobs = total,
                        summary_completed = length completed_js,
                        summary_pending = length pending_js,
                        summary_failed = length failed_js,
                        failed_jobs = infos\<rparr>)))))))))))))"

text \<open>The file the run leaves behind, if any.\<close>

definition bundle_written :: "py_exception + run_end \<Rightarrow> diagnostics option" where
  "bundle_written res = (case res of Inr (Saved d) \<Rightarrow> Some d | _ \<Rightarrow> None)"

subsection \<open>Notions for the properties of the triage\<close>

text \<open>
  A fetch fails: the request raises, the status is an error status, or the body is not JSON.
  The fetcher then returns \<^verbatim>\<open>None\<close>.
\<close>

definition fetch_fails :: "http_outcome \<Rightarrow> bool" where
  "fetch_fails out =
     (case out of
        Raises e \<Rightarrow> True
      | Responds resp \<Rightarrow>
          (400 \<le> status_code resp \<and> status_code resp < 600) \<or> json_body resp = None)"

text \<open>\<^verbatim>\<open>job.get(key)\<close> of a job that is a dict; \<^verbatim>\<open>None\<close> when the key is absent.\<close>

definition job_field :: "string \<Rightarrow> json \<Rightarrow> json" where
  "job_field k job = (case py_get job k JNull of Inl e \<Rightarrow> JNull | Inr v \<Rightarrow> v)"

text \<open>The jobs of the collection that the second request of the run fetched.\<close>

definition job_collection :: "server \<Rightarrow> json list" where
  "job_collection srv =
     (case and_then (py_get (get_all_jobs (srv 1)) ''jobs'' (JList [])) py_iter of
        Inl e \<Rightarrow> []
      | Inr js \<Rightarrow> js)"

text \<open>The jobs whose status is one of the given statuses.\<close>

definition with_status :: "json list \<Rightarrow> json list \<Rightarrow> json list" where
  "with_status wanted js = filter (\<lambda>job. job_field ''status'' job \<in> set wanted) js"

text \<open>The jobs whose status is none of the six statuses the script looks for.\<close>

definition uncounted_jobs :: "json list \<Rightarrow> json list" where
  "uncounted_jobs js =
     filter (\<lambda>job. job_field ''status'' job
               \<notin> set (failed_statuses @ completed_statuses @ pending_statuses)) js"

text \<open>
  What lets the loop over the failed jobs run to its end. A job's pipelines can be printed
  when they are false or can be joined: a list of strings, a string or a dict. The error
  message can be resolved when the details are false, the job has a message of its own, or
  the details are a dict. \<open>details_usable srv n jobs\<close> says both of each job, the details
  being those that the requests from the \<open>n\<close>-th on fetch.
\<close>

fun is_dict :: "json \<Rightarrow> bool" where
  "is_dict (JDict kvs) = True"
| "is_dict _ = False"

fun is_str :: "json \<Rightarrow> bool" where
  "is_str (JStr s) = True"
| "is_str _ = False"

fun joinable :: "json \<Rightarrow> bool" where
  "joinable (JList xs) = list_all is_str xs"
| "joinable (JStr s) = True"
| "joinable (JDict kvs) = True"
| "joinable v = (\<not> truthy v)"

definition message_readable :: "json \<Rightarrow> json \<Rightarrow> bool" where
  "message_readable job dets \<longleftrightarrow>
     \<not> truthy dets \<or> truthy (job_field ''error_message'' job) \<or> is_dict dets"

fun details_usable :: "server \<Rightarrow> nat \<Rightarrow> json list \<Rightarrow> bool" where
  "details_usable srv n [] = True"
| "details_usable srv n (job # rest) =
     (message_readable job (get_job_details (srv n))
      \<and> joinable (job_field ''pipelines'' job)
      \<and> details_usable srv (Suc n) rest)"

text \<open>
  The diagnostics count the collection that the run fetched: the summary holds the number of
  jobs of each kind and of all jobs, and the detail records are the failed jobs, one record
  for each, in order, with the job's id and status.
\<close>

definition counts_collection :: "server \<Rightarrow> diagnostics \<Rightarrow> bool" where
  "counts_collection srv d \<longleftrightarrow>
     summary_failed d = length (with_status failed_statuses (job_collection srv))
     \<and> summary_completed d = length (with_status completed_statuses (job_collection srv))
     \<and> summary_pending d = length (with_status pending_statuses (job_collection srv))
     \<and> summary_total_jobs d = length (job_collection srv)
     \<and> length (failed_jobs d) = summary_failed d
     \<and> map job_id (failed_jobs d)
         = map (job_field ''id'') (with_status failed_statuses (job_collection srv))
     \<and> map status (failed_jobs d)
         = map (job_field ''status'') (with_status failed_statuses (job_collection srv))"

section \<open>Properties of the endpoint grouping\<close>

lemma grouped_group_path: "grouped (group_path g p) = add_mset p (grouped g)"
  by (simp add: group_path_def grouped_def)

lemma grouped_foldl: "grouped (foldl group_path g ps) = mset ps + grouped g"
  by (induction ps arbitrary: g) (simp_all add: grouped_group_path)

lemma grouped_no_endpoints: "grouped no_endpoints = {#}"
  by (simp add: grouped_def no_endpoints_def)

lemma grouped_group_endpoints: "grouped (group_endpoints paths) = mset paths"
  by (simp add: group_endpoints_def grouped_foldl grouped_no_endpoints)

text \<open>Each list is the sorted input filtered by the first test that matches.\<close>

lemma foldl_group_path:
  "foldl group_path g ps =
     \<lparr>system_endpoints = system_endpoints g @ filter (\<lambda>p. py_in ''/system/'' p) ps,
      pipeline_endpoints = pipeline_endpoints g @
        filter (\<lambda>p. \<not> py_in ''/system/'' p \<and> py_in ''/pipeline'' p) ps,
      job_endpoints = job_endpoints g @
        filter (\<lambda>p. \<not> py_in ''/system/'' p \<and> \<not> py_in ''/pipeline'' p \<and> py_in ''/job'' p) ps,
      debug_endpoints = debug_endpoints g @
        filter (\<lambda>p. \<not> py_in ''/system/'' p \<and> \<not> py_in ''/pipeline'' p \<and> \<not> py_in ''/job'' p
                    \<and> py_in ''/debug/'' p) ps,
      other_endpoints = other_endpoints g @
        filter (\<lambda>p. \<not> py_in ''/system/'' p \<and> \<not> py_in ''/pipeline'' p \<and> \<not> py_in ''/job'' p
                    \<and> \<not> py_in ''/debug/'' p) ps\<rparr>"
  by (induction ps arbitrary: g) (simp_all add: group_path_def)

lemma buckets_holding:
  "length (filter (\<lambda>b. p \<in> set b) (buckets (group_endpoints paths)))
     = (if p \<in> set paths then 1 else 0)"
  by (simp add: buckets_def group_endpoints_def foldl_group_path no_endpoints_def)

text \<open>
  Claim C7. For every list of path strings the five lists of the grouping hold the input
  exactly: together they are the input as a multiset (no path is lost, none is added or
  repeated), every path of the input is in exactly one of the five lists and a path that is not in the
  input is in none, and the empty input gives five empty lists. The grouping is a total
  function: no branch of it raises.
\<close>

theorem group_endpoints_partition:
  "grouped (group_endpoints paths) = mset paths
   \<and> length (filter (\<lambda>b. p \<in> set b) (buckets (group_endpoints paths)))
       = (if p \<in> set paths then 1 else 0)
   \<and> group_endpoints [] = no_endpoints"
  by (simp add: buckets_holding grouped_group_endpoints) (simp add: group_endpoints_def)

theorem group_endpoints_partition_witness:
  "group_endpoints [''/health'', ''/api/v1/system/health'', ''/api/v1/pipelines'',
       ''/api/v1/jobs'', ''/api/v1/debug/x'', ''/api/v1/system/jobs'']
     = \<lparr>system_endpoints = [''/api/v1/system/health'', ''/api/v1/system/jobs''],
        pipeline_endpoints = [''/api/v1/pipelines''],
        job_endpoints = [''/api/v1/jobs''],
        debug_endpoints = [''/api/v1/debug/x''],
        other_endpoints = [''/health'']\<rparr>
   \<and> grouped (group_endpoints [''/health'', ''/api/v1/system/health'', ''/api/v1/pipelines'',
       ''/api/v1/jobs'', ''/api/v1/debug/x'', ''/api/v1/system/jobs''])
     = mset [''/health'', ''/api/v1/system/health'', ''/api/v1/pipelines'',
       ''/api/v1/jobs'', ''/api/v1/debug/x'', ''/api/v1/system/jobs'']
   \<and> length (filter (\<lambda>b. ''/api/v1/system/jobs'' \<in> set b)
        (buckets (group_endpoints [''/health'', ''/api/v1/system/health'', ''/api/v1/pipelines'',
       ''/api/v1/jobs'', ''/api/v1/debug/x'', ''/api/v1/system/jobs'']))) = 1"
proof -
  have "group_endpoints [''/health'', ''/api/v1/system/health'', ''/api/v1/pipelines'',
       ''/api/v1/jobs'', ''/api/v1/debug/x'', ''/api/v1/system/jobs'']
     = \<lparr>system_endpoints = [''/api/v1/system/health'', ''/api/v1/system/jobs''],
        pipeline_endpoints = [''/api/v1/pipelines''],
        job_endpoints = [''/api/v1/jobs''],
        debug_endpoints = [''/api/v1/debug/x''],
        other_endpoints = [''/health'']\<rparr>"
    by code_simp
  then show ?thesis
    using group_endpoints_partition [of "[''/health'', ''/api/v1/system/health'',
       ''/api/v1/pipelines'', ''/api/v1/jobs'', ''/api/v1/debug/x'', ''/api/v1/system/jobs'']"
       "''/api/v1/system/jobs''"]
    by simp
qed

section \<open>Verdicts of the probes\<close>

lemma debug_endpoint_passed:
  "verdict_passed (debug_endpoint (Responds resp)) \<longleftrightarrow> status_code resp \<in> {200, 401, 404}"
  by (auto simp: debug_endpoint_def attempt_def verdict_passed_def Let_def)

lemma authentication_test_passed:
  "verdict_passed (authentication_test (Responds resp)) \<longleftrightarrow>
     status_code resp = 401 \<or> (status_code resp = 200 \<and> json_object resp)"
  by (auto simp: authentication_test_def attempt_def verdict_passed_def Let_def and_then_def
      resp_json_def json_object_def split: option.splits json.splits sum.splits)

lemma job_list_passed:
  "verdict_passed (job_list (Responds resp)) \<longleftrightarrow>
     status_code resp = 401 \<or> (status_code resp = 200 \<and> json_object resp)"
  by (auto simp: job_list_def attempt_def verdict_passed_def Let_def and_then_def
      resp_json_def json_object_def split: option.splits json.splits sum.splits)

lemma basic_health_check_passed:
  "verdict_passed (basic_health_check (Responds resp)) \<longleftrightarrow>
     status_code resp = 200 \<and> json_object resp"
  by (auto simp: basic_health_check_def attempt_def verdict_passed_def Let_def and_then_def
      resp_json_def json_object_def split: option.splits json.splits sum.splits)

lemma job_status_retrieval_passed:
  "verdict_passed (job_status_retrieval (Responds resp)) \<longleftrightarrow>
     status_code resp = 200 \<and> json_object resp"
  by (auto simp: job_status_retrieval_def attempt_def verdict_passed_def Let_def and_then_def
      resp_json_def json_object_def split: option.splits json.splits sum.splits)

lemma detailed_health_check_passed:
  "verdict_passed (detailed_health_check (Responds resp)) \<longleftrightarrow>
     status_code resp = 200 \<and> \<not> raised (detailed_health_check (Responds resp))"
  by (auto simp: detailed_health_check_def attempt_def verdict_passed_def raised_def Let_def and_then_def
       split: sum.splits)

lemma pipeline_list_passed:
  "verdict_passed (pipeline_list (Responds resp)) \<longleftrightarrow>
     status_code resp = 200 \<and> \<not> raised (pipeline_list (Responds resp))"
  by (auto simp: pipeline_list_def attempt_def verdict_passed_def raised_def Let_def and_then_def
       split: sum.splits)

lemma request_raises_fails:
  "\<not> verdict_passed (attempt (Raises e) body)"
  by (simp add: attempt_def verdict_passed_def)

lemma detailed_health_check_raised:
  "raised (detailed_health_check (Responds resp)) \<Longrightarrow> status_code resp = 200"
  by (auto simp: detailed_health_check_def attempt_def raised_def Let_def split: if_splits)

lemma pipeline_list_raised:
  "raised (pipeline_list (Responds resp)) \<Longrightarrow> status_code resp = 200"
  by (auto simp: pipeline_list_def attempt_def raised_def Let_def split: if_splits)

text \<open>
  Claim C1, as amended. For a probe that receives a response: a debug probe passes if and
  only if the status is 200, 401 or 404; the authentication test and the job listing pass if
  and only if the status is 401, or the status is 200 and the body parses as a JSON object;
  a required probe (basic health, job status retrieval, detailed health, pipeline list)
  passes if and only if the status is 200 and reading the body raises no exception, which
  for the first two means that the body parses as a JSON object; reading raises only on
  status 200. So a status outside the accepted set always fails, and a status 200 does not
  pass by itself. A probe whose request raises fails.
\<close>

theorem probe_verdicts:
  "(verdict_passed (debug_endpoint (Responds resp)) \<longleftrightarrow> status_code resp \<in> {200, 401, 404})
   \<and> (verdict_passed (authentication_test (Responds resp)) \<longleftrightarrow>
        status_code resp = 401 \<or> (status_code resp = 200 \<and> json_object resp))
   \<and> (verdict_passed (job_list (Responds resp)) \<longleftrightarrow>
        status_code resp = 401 \<or> (status_code resp = 200 \<and> json_object resp))
   \<and> (verdict_passed (basic_health_check (Responds resp)) \<longleftrightarrow>
        status_code resp = 200 \<and> json_object resp)
   \<and> (verdict_passed (job_status_retrieval (Responds resp)) \<longleftrightarrow>
        status_code resp = 200 \<and> json_object resp)
   \<and> (verdict_passed (detailed_health_check (Responds resp)) \<longleftrightarrow>
        status_code resp = 200 \<and> \<not> raised (detailed_health_check (Responds resp)))
   \<and> (verdict_passed (pipeline_list (Responds resp)) \<longleftrightarrow>
        status_code resp = 200 \<and> \<not> raised (pipeline_list (Responds resp)))
   \<and> (raised (detailed_health_check (Responds resp)) \<longrightarrow> status_code resp = 200)
   \<and> (raised (pipeline_list (Responds resp)) \<longrightarrow> status_code resp = 200)
   \<and> \<not> verdict_passed (debug_endpoint (Raises e))
   \<and> \<not> verdict_passed (authentication_test (Raises e))
   \<and> \<not> verdict_passed (job_list (Raises e))
   \<and> \<not> verdict_passed (basic_health_check (Raises e))
   \<and> \<not> verdict_passed (job_status_retrieval (Raises e))
   \<and> \<not> verdict_passed (detailed_health_check (Raises e))
   \<and> \<not> verdict_passed (pipeline_list (Raises e))"
  unfolding debug_endpoint_passed authentication_test_passed job_list_passed
    basic_health_check_passed job_status_retrieval_passed
  using detailed_health_check_passed [of resp] pipeline_list_passed [of resp]
    detailed_health_check_raised [of resp] pipeline_list_raised [of resp]
  by (simp add: request_raises_fails debug_endpoint_def authentication_test_def job_list_def
      basic_health_check_def job_status_retrieval_def detailed_health_check_def pipeline_list_def)

text \<open>
  The claim as stated fails: a response to the authentication test with status 200, in the
  accepted set, whose body is not JSON is logged as a failure, by the exception handler.
\<close>

theorem probe_verdicts_counterexample:
  "status_code \<lparr>status_code = 200, json_body = None, stream = []\<rparr> \<in> {200, 401}
   \<and> \<not> verdict_passed
        (authentication_test (Responds \<lparr>status_code = 200, json_body = None, stream = []\<rparr>))"
  by (simp add: authentication_test_def attempt_def verdict_passed_def resp_json_def and_then_def)

theorem probe_verdicts_witness:
  "verdict_passed
     (authentication_test (Responds \<lparr>status_code = 401, json_body = None, stream = []\<rparr>))
   \<and> verdict_passed (basic_health_check (Responds \<lparr>status_code = 200,
        json_body = Some (JDict [(''status'', JStr ''ok'')]), stream = []\<rparr>))
   \<and> \<not> verdict_passed (job_list (Responds \<lparr>status_code = 500, json_body = None, stream = []\<rparr>))
   \<and> \<not> verdict_passed
        (debug_endpoint (Responds \<lparr>status_code = 500, json_body = None, stream = []\<rparr>))
   \<and> \<not> raised (pipeline_list (Responds \<lparr>status_code = 500, json_body = None, stream = []\<rparr>))"
  using probe_verdicts [of "\<lparr>status_code = 401, json_body = None, stream = []\<rparr>" OtherError]
    probe_verdicts [of "\<lparr>status_code = 200,
        json_body = Some (JDict [(''status'', JStr ''ok'')]), stream = []\<rparr>" OtherError]
    probe_verdicts [of "\<lparr>status_code = 500, json_body = None, stream = []\<rparr>" OtherError]
  by (auto simp: json_object_def)

lemma job_submission_passed:
  "verdict_passed (submission_verdict (job_submission (Responds resp))) \<longleftrightarrow>
     status_code resp \<in> {401, 422} \<or> (status_code resp = 201 \<and> json_object resp)"
  by (auto simp: job_submission_def submission_verdict_def attempt_def verdict_passed_def Let_def
      and_then_def resp_json_def json_object_def split: option.splits json.splits sum.splits)

lemma job_submission_raises:
  "\<not> verdict_passed (submission_verdict (job_submission (Raises e)))"
  by (simp add: job_submission_def submission_verdict_def attempt_def verdict_passed_def and_then_def)

text \<open>
  Claim C8, as amended. The job-submission probe passes if and only if the status is 401 or
  422, or the status is 201 and the body parses as a JSON object; every other response
  fails, status 200 included, and so does a request that raises.
\<close>

theorem job_submission_verdict:
  "(verdict_passed (submission_verdict (job_submission (Responds resp))) \<longleftrightarrow>
     status_code resp \<in> {401, 422} \<or> (status_code resp = 201 \<and> json_object resp))
   \<and> \<not> verdict_passed (submission_verdict (job_submission (Raises e)))"
  by (simp only: job_submission_passed job_submission_raises simp_thms)

text \<open>
  The claim as stated fails at status 200: the accepted codes are 201, 401 and 422.
\<close>

theorem job_submission_verdict_counterexample:
  "status_code \<lparr>status_code = 200, json_body = Some (JDict [(''id'', JStr ''j1'')]), stream = []\<rparr>
       \<in> {200, 401, 422}
   \<and> \<not> verdict_passed (submission_verdict (job_submission
         (Responds \<lparr>status_code = 200, json_body = Some (JDict [(''id'', JStr ''j1'')]), stream = []\<rparr>)))"
  by (simp add: job_submission_def submission_verdict_def attempt_def verdict_passed_def and_then_def)

theorem job_submission_verdict_witness:
  "verdict_passed (submission_verdict (job_submission
         (Responds \<lparr>status_code = 201, json_body = Some (JDict [(''id'', JStr ''j1'')]), stream = []\<rparr>)))
   \<and> verdict_passed (submission_verdict (job_submission
         (Responds \<lparr>status_code = 422, json_body = None, stream = []\<rparr>)))
   \<and> \<not> verdict_passed (submission_verdict (job_submission
         (Responds \<lparr>status_code = 500, json_body = None, stream = []\<rparr>)))"
  using job_submission_verdict [of "\<lparr>status_code = 201, json_body = Some (JDict [(''id'', JStr ''j1'')]), stream = []\<rparr>" OtherError]
   job_submission_verdict [of "\<lparr>status_code = 422, json_body = None, stream = []\<rparr>" OtherError]
   job_submission_verdict [of "\<lparr>status_code = 500, json_body = None, stream = []\<rparr>" OtherError]
  by (simp add: json_object_def)

lemma missing_endpoint_result:
  "missing_endpoint (Responds resp) =
     Inr (True, status_detail resp @
       [Lit (if status_code resp = 404 then '' (Missing as expected)''
             else '' (Unexpectedly implemented!)'')])"
  by (simp add: missing_endpoint_def attempt_def Let_def)

lemma render_missing:
  "render fi fj fe (verdict_details (missing_endpoint (Responds resp))) =
     ''Status: '' @ fi (status_code resp) @
       (if status_code resp = 404 then '' (Missing as expected)''
        else '' (Unexpectedly implemented!)'')"
  by (simp add: missing_endpoint_result verdict_details_def render_def status_detail_def)

lemma flag_distinct:
  "xs @ '' (Unexpectedly implemented!)'' \<noteq> ys @ '' (Missing as expected)''"
proof
  assume "xs @ '' (Unexpectedly implemented!)'' = ys @ '' (Missing as expected)''"
  then have "take 2 (rev (xs @ '' (Unexpectedly implemented!)'')) = take 2 (rev (ys @ '' (Missing as expected)''))"
    by simp
  then show False by simp
qed

lemma render_missing_distinct:
  assumes "status_code r1 \<noteq> 404" and "status_code r2 = 404"
  shows "render fi fj fe (verdict_details (missing_endpoint (Responds r1)))
       \<noteq> render fi fj fe (verdict_details (missing_endpoint (Responds r2)))"
proof -
  have "(''Status: '' @ fi (status_code r1)) @ '' (Unexpectedly implemented!)''
      \<noteq> (''Status: '' @ fi (status_code r2)) @ '' (Missing as expected)''"
    by (rule flag_distinct)
  with assms show ?thesis by (simp add: render_missing)
qed

text \<open>
  Claim C2, as amended. A missing-endpoints probe that receives a response passes whatever
  the status is; its detail is the status followed by \<^verbatim>\<open> (Missing as expected)\<close> when
  the status is 404 and by \<^verbatim>\<open> (Unexpectedly implemented!)\<close> otherwise, so that the
  detail string of a pass on status 200 differs from the detail string of a pass on status
  404, however the status code is formatted. The probe fails only when the request raises.
\<close>

theorem missing_endpoint_verdict:
  "verdict_passed (missing_endpoint (Responds resp))
   \<and> verdict_details (missing_endpoint (Responds resp)) =
       status_detail resp @
         [Lit (if status_code resp = 404 then '' (Missing as expected)''
               else '' (Unexpectedly implemented!)'')]
   \<and> (status_code r1 \<noteq> 404 \<and> status_code r2 = 404 \<longrightarrow>
        render fi fj fe (verdict_details (missing_endpoint (Responds r1)))
          \<noteq> render fi fj fe (verdict_details (missing_endpoint (Responds r2))))
   \<and> \<not> verdict_passed (missing_endpoint (Raises e))"
  using render_missing_distinct [of r1 r2 fi fj fe]
  by (simp add: missing_endpoint_result verdict_passed_def verdict_details_def)
     (simp add: missing_endpoint_def attempt_def)

text \<open>
  The claim as stated fails at status 500: the verdict is a pass, since the probe logs
  \<^verbatim>\<open>True\<close> for every response.
\<close>

theorem missing_endpoint_verdict_counterexample:
  "status_code \<lparr>status_code = 500, json_body = None, stream = []\<rparr> \<notin> {200, 404}
   \<and> verdict_passed (missing_endpoint (Responds \<lparr>status_code = 500, json_body = None, stream = []\<rparr>))"
  by (simp add: missing_endpoint_def attempt_def verdict_passed_def)

theorem missing_endpoint_verdict_witness:
  "verdict_passed (missing_endpoint (Responds \<lparr>status_code = 200, json_body = None, stream = []\<rparr>))
   \<and> verdict_details (missing_endpoint (Responds \<lparr>status_code = 200, json_body = None, stream = []\<rparr>))
       = [Lit ''Status: '', Num 200, Lit '' (Unexpectedly implemented!)'']
   \<and> render (\<lambda>n. ''n'') (\<lambda>v. ''v'') (\<lambda>e. ''e'')
        (verdict_details (missing_endpoint (Responds \<lparr>status_code = 200, json_body = None, stream = []\<rparr>)))
      \<noteq> render (\<lambda>n. ''n'') (\<lambda>v. ''v'') (\<lambda>e. ''e'')
        (verdict_details (missing_endpoint (Responds \<lparr>status_code = 404, json_body = None, stream = []\<rparr>)))"
  using missing_endpoint_verdict [of "\<lparr>status_code = 200, json_body = None, stream = []\<rparr>"
      "\<lparr>status_code = 200, json_body = None, stream = []\<rparr>"
      "\<lparr>status_code = 404, json_body = None, stream = []\<rparr>" "\<lambda>n. ''n''" "\<lambda>v. ''v''" "\<lambda>e. ''e''" OtherError]
  by (auto simp: status_detail_def)

lemma read_events_passed: "fst (read_events items) \<longleftrightarrow> data_line_received items"
proof (induction items rule: read_events.induct)
  case 1
  show ?case by (simp add: data_line_received_def)
next
  case (2 line rest)
  then show ?case
    by (auto simp: data_line_received_def data_line_def breaks_stream_def Let_def)
next
  case (3 line rest)
  then show ?case
    by (auto simp: data_line_received_def data_line_def breaks_stream_def)
next
  case (4 e rest)
  show ?case by (simp add: data_line_received_def data_line_def breaks_stream_def)
qed

text \<open>
  Claim C9, as amended. The streaming probe passes when the request times out, with the
  detail \<^verbatim>\<open>Connection timeout (expected if not implemented)\<close> (a capital C); on
  status 200 it passes if and only if a data line is received before the stream ends or
  breaks; it passes on status 404; it fails on every other status and when the request
  raises anything but a timeout.
\<close>

theorem sse_connection_verdict:
  "sse_connection (Raises Timeout) = (True, [Lit ''Connection timeout (expected if not implemented)''])
   \<and> (e \<noteq> Timeout \<longrightarrow> \<not> fst (sse_connection (Raises e)))
   \<and> (status_code resp = 200 \<longrightarrow>
        (fst (sse_connection (Responds resp)) \<longleftrightarrow> data_line_received (stream resp)))
   \<and> (status_code resp = 404 \<longrightarrow> fst (sse_connection (Responds resp)))
   \<and> (status_code resp \<notin> {200, 404} \<longrightarrow> \<not> fst (sse_connection (Responds resp)))"
  by (cases e) (simp_all add: sse_connection_def read_events_passed)

text \<open>
  The claim as stated fails on the detail of the timeout: it is not the string
  \<^verbatim>\<open>connection timeout (expected if not implemented)\<close>.
\<close>

theorem sse_connection_verdict_counterexample:
  "fst (sse_connection (Raises Timeout))
   \<and> snd (sse_connection (Raises Timeout)) \<noteq> [Lit ''connection timeout (expected if not implemented)'']"
  by (simp add: sse_connection_def)

theorem sse_connection_verdict_witness:
  "sse_connection (Responds \<lparr>status_code = 200, json_body = None,
       stream = [Line [], Line '': ping'', Line ''data: hello '', StreamRaises Timeout]\<rparr>)
     = (True, [Lit ''Received SSE event: '', Lit ''hello'', Lit ''...''])
   \<and> \<not> fst (sse_connection (Responds \<lparr>status_code = 200, json_body = None,
       stream = [Line ''event: x'', StreamRaises Timeout, Line ''data: late'']\<rparr>))
   \<and> fst (sse_connection (Responds \<lparr>status_code = 404, json_body = None, stream = []\<rparr>))
   \<and> \<not> fst (sse_connection (Responds \<lparr>status_code = 500, json_body = None, stream = []\<rparr>))
   \<and> \<not> fst (sse_connection (Raises OtherError))"
proof -
  have "sse_connection (Responds \<lparr>status_code = 200, json_body = None,
       stream = [Line [], Line '': ping'', Line ''data: hello '', StreamRaises Timeout]\<rparr>)
     = (True, [Lit ''Received SSE event: '', Lit ''hello'', Lit ''...''])"
    by code_simp
  moreover have "\<not> data_line_received [Line ''event: x'', StreamRaises Timeout, Line ''data: late'']"
    by (simp add: data_line_received_def data_line_def breaks_stream_def)
  ultimately show ?thesis
    using sse_connection_verdict [of OtherError "\<lparr>status_code = 200, json_body = None,
         stream = [Line ''event: x'', StreamRaises Timeout, Line ''data: late'']\<rparr>"]
      sse_connection_verdict [of OtherError
        "\<lparr>status_code = 404, json_body = None, stream = []\<rparr>"]
      sse_connection_verdict [of OtherError
        "\<lparr>status_code = 500, json_body = None, stream = []\<rparr>"]
    by simp
qed

section \<open>Counting the verdicts of a run\<close>

lemma record_verdict_log:
  "record_verdict name res t = log_result name (verdict_passed res) (verdict_details res) t"
  by (simp add: record_verdict_def verdict_passed_def verdict_details_def split: sum.splits)

lemma counted_sum: "counted t \<Longrightarrow> passed t + failed t = length (details t)"
  by (simp add: counted_def sum_length_filter_compl)

lemma counted_step:
  "counted t \<Longrightarrow> counted (log_result name ok d (snd (session_request srv t)))"
  by (simp add: counted_def log_result_def session_request_def)

lemma counted_probe:
  "counted t \<Longrightarrow> counted (record_verdict name res (snd (session_request srv t)))"
  by (simp add: record_verdict_log counted_step)

lemma counted_new_tester: "counted new_tester"
  by (simp add: counted_def new_tester_def)

lemma counted_test_health_endpoints:
  "counted t \<Longrightarrow> counted (test_health_endpoints srv t)"
  by (simp add: test_health_endpoints_def split_beta Let_def counted_probe)

lemma counted_test_authentication:
  "counted t \<Longrightarrow> counted (test_authentication srv t)"
  by (simp add: test_authentication_def split_beta Let_def counted_probe)

lemma counted_test_pipelines:
  "counted t \<Longrightarrow> counted (test_pipelines srv t)"
  by (simp add: test_pipelines_def split_beta Let_def counted_probe)

lemma counted_test_job_endpoints:
  "counted t \<Longrightarrow> counted (snd (test_job_endpoints srv t))"
  by (simp add: test_job_endpoints_def split_beta Let_def counted_probe)

lemma counted_missing_loop:
  "counted t \<Longrightarrow> counted (missing_loop srv eps t)"
  by (induction srv eps t rule: missing_loop.induct) (simp_all add: split_beta counted_probe)

lemma counted_debug_loop:
  "counted t \<Longrightarrow> counted (debug_loop srv eps t)"
  by (induction srv eps t rule: debug_loop.induct) (simp_all add: split_beta counted_probe)

lemma counted_test_sse_connection:
  "counted t \<Longrightarrow> counted (test_sse_connection srv t)"
  by (simp add: test_sse_connection_def split_beta Let_def counted_step)

lemma run_all_tests_unfold:
  "run_all_tests srv t0 =
     (fst (test_job_endpoints srv
            (test_pipelines srv (test_authentication srv (test_health_endpoints srv t0)))),
      test_sse_connection srv (test_debug_endpoints srv (test_missing_endpoints srv
        (snd (test_job_endpoints srv
            (test_pipelines srv (test_authentication srv (test_health_endpoints srv t0))))))))"
  by (simp add: run_all_tests_def split_beta Let_def)

lemma counted_test_missing_endpoints:
  "counted t \<Longrightarrow> counted (test_missing_endpoints srv t)"
  by (simp add: test_missing_endpoints_def counted_missing_loop)

lemma counted_test_debug_endpoints:
  "counted t \<Longrightarrow> counted (test_debug_endpoints srv t)"
  by (simp add: test_debug_endpoints_def counted_debug_loop)

lemma counted_run_all_tests:
  "counted t \<Longrightarrow> counted (snd (run_all_tests srv t))"
  unfolding run_all_tests_unfold snd_conv
  by (intro counted_test_sse_connection counted_test_debug_endpoints
      counted_test_missing_endpoints counted_test_job_endpoints counted_test_pipelines
      counted_test_authentication counted_test_health_endpoints)

text \<open>Each probe sends one request and logs one entry.\<close>

lemma sent_probe [simp]:
  "requests_sent (record_verdict name res (snd (session_request srv t))) = Suc (requests_sent t)"
  by (simp add: record_verdict_log log_result_def session_request_def)

lemma sent_log [simp]:
  "requests_sent (log_result name ok d (snd (session_request srv t))) = Suc (requests_sent t)"
  by (simp add: log_result_def session_request_def)

lemma tests_probe [simp]:
  "map test (details (record_verdict name res (snd (session_request srv t)))) = map test (details t) @ [name]"
  by (simp add: record_verdict_log log_result_def session_request_def)

lemma sent_missing_loop: "requests_sent (missing_loop srv eps t) = requests_sent t + length eps"
  by (induction srv eps t rule: missing_loop.induct) (simp_all add: split_beta)

lemma sent_debug_loop: "requests_sent (debug_loop srv eps t) = requests_sent t + length eps"
  by (induction srv eps t rule: debug_loop.induct) (simp_all add: split_beta)

lemma test_job_endpoints_tests:
  "map test (details (snd (test_job_endpoints srv t))) =
     map test (details t) @
       (if truthy (fst (test_job_endpoints srv t))
        then [''Job List'', ''Job Submission'', ''Job Status Retrieval'']
        else [''Job List'', ''Job Submission''])"
  by (simp add: test_job_endpoints_def split_beta Let_def)

lemma sent_test_job_endpoints:
  "requests_sent (snd (test_job_endpoints srv t)) =
     requests_sent t + (if truthy (fst (test_job_endpoints srv t)) then 3 else 2)"
  by (simp add: test_job_endpoints_def split_beta Let_def)

lemma sent_test_health_endpoints:
  "requests_sent (test_health_endpoints srv t) = requests_sent t + 2"
  by (simp add: test_health_endpoints_def split_beta Let_def)

lemma sent_test_authentication:
  "requests_sent (test_authentication srv t) = requests_sent t + 2"
  by (simp add: test_authentication_def split_beta Let_def)

lemma sent_test_pipelines:
  "requests_sent (test_pipelines srv t) = requests_sent t + 2"
  by (simp add: test_pipelines_def split_beta Let_def)

lemma sent_test_missing_endpoints:
  "requests_sent (test_missing_endpoints srv t) = requests_sent t + 4"
  unfolding test_missing_endpoints_def sent_missing_loop by (simp add: missing_endpoints_def)

lemma sent_test_debug_endpoints:
  "requests_sent (test_debug_endpoints srv t) = requests_sent t + 4"
  unfolding test_debug_endpoints_def sent_debug_loop by (simp add: debug_endpoint_list_def)

lemma sent_test_sse_connection:
  "requests_sent (test_sse_connection srv t) = requests_sent t + 1"
  by (simp add: test_sse_connection_def split_beta Let_def)

lemma sent_run_all_tests:
  "requests_sent (snd (run_all_tests srv t)) =
     requests_sent t + (if truthy (fst (run_all_tests srv t)) then 18 else 17)"
  unfolding run_all_tests_unfold snd_conv fst_conv
  by (simp only: sent_test_sse_connection sent_test_debug_endpoints sent_test_missing_endpoints
      sent_test_job_endpoints sent_test_pipelines sent_test_authentication
      sent_test_health_endpoints split: if_split) simp

lemma test_job_endpoints_id:
  "fst (test_job_endpoints srv t) = submitted_id (job_submission (srv (Suc (requests_sent t))))"
  by (simp add: test_job_endpoints_def split_beta Let_def session_request_def
      record_verdict_log log_result_def)

lemma run_all_tests_id:
  "fst (run_all_tests srv t) = submitted_id (job_submission (srv (requests_sent t + 7)))"
  unfolding run_all_tests_unfold fst_conv test_job_endpoints_id
  by (simp add: sent_test_pipelines sent_test_authentication sent_test_health_endpoints
      eval_nat_numeral)

text \<open>
  Claim C6. The tester starts with counters that agree with its log, and every probe, every
  test function and the whole run keep them so: where they agree, passed plus failed is the
  length of the detail list, which is the number of requests sent, one per probe executed.
  The job endpoints log the status retrieval only when the submission yielded a job id that
  is true; otherwise that probe sends no request and is counted neither as passed nor as
  failed. A run sends 18 requests when the submission yields an id and 17 otherwise.
\<close>

theorem suite_counts:
  "counted new_tester
   \<and> (counted t \<longrightarrow>
        passed t + failed t = length (details t)
        \<and> length (details t) = requests_sent t
        \<and> counted (record_verdict name res (snd (session_request srv t)))
        \<and> counted (test_health_endpoints srv t)
        \<and> counted (test_authentication srv t)
        \<and> counted (test_pipelines srv t)
        \<and> counted (snd (test_job_endpoints srv t))
        \<and> counted (test_missing_endpoints srv t)
        \<and> counted (test_debug_endpoints srv t)
        \<and> counted (test_sse_connection srv t)
        \<and> counted (snd (run_all_tests srv t)))
   \<and> fst (test_job_endpoints srv t) = submitted_id (job_submission (srv (Suc (requests_sent t))))
   \<and> map test (details (snd (test_job_endpoints srv t))) =
       map test (details t) @
         (if truthy (fst (test_job_endpoints srv t))
          then [''Job List'', ''Job Submission'', ''Job Status Retrieval'']
          else [''Job List'', ''Job Submission''])
   \<and> fst (run_all_tests srv t) = submitted_id (job_submission (srv (requests_sent t + 7)))
   \<and> requests_sent (snd (run_all_tests srv t)) =
       requests_sent t + (if truthy (fst (run_all_tests srv t)) then 18 else 17)"
proof -
  have "counted t \<Longrightarrow> length (details t) = requests_sent t"
    by (simp add: counted_def)
  then show ?thesis
    using counted_new_tester counted_sum [of t] counted_probe [of t name res srv]
      counted_test_health_endpoints [of t srv] counted_test_authentication [of t srv]
      counted_test_pipelines [of t srv] counted_test_job_endpoints [of t srv]
      counted_test_missing_endpoints [of t srv] counted_test_debug_endpoints [of t srv]
      counted_test_sse_connection [of t srv] counted_run_all_tests [of t srv]
      test_job_endpoints_id [of srv t] test_job_endpoints_tests [of srv t]
      run_all_tests_id [of srv t] sent_run_all_tests [of srv t]
    by blast
qed

theorem suite_counts_witness:
  "counted (snd (run_all_tests (\<lambda>n. Responds \<lparr>status_code = 404, json_body = None, stream = []\<rparr>) new_tester))
   \<and> passed (snd (run_all_tests (\<lambda>n. Responds \<lparr>status_code = 404, json_body = None, stream = []\<rparr>) new_tester))
     + failed (snd (run_all_tests (\<lambda>n. Responds \<lparr>status_code = 404, json_body = None, stream = []\<rparr>) new_tester))
     = 17
   \<and> length (details (snd (run_all_tests (\<lambda>n. Responds \<lparr>status_code = 404, json_body = None, stream = []\<rparr>) new_tester))) = 17
   \<and> requests_sent (snd (run_all_tests (\<lambda>n. Responds \<lparr>status_code = 404, json_body = None, stream = []\<rparr>) new_tester)) = 17
   \<and> passed (snd (run_all_tests (\<lambda>n. Responds \<lparr>status_code = 201,
          json_body = Some (JDict [(''id'', JStr ''j1'')]), stream = []\<rparr>) new_tester))
     + failed (snd (run_all_tests (\<lambda>n. Responds \<lparr>status_code = 201,
          json_body = Some (JDict [(''id'', JStr ''j1'')]), stream = []\<rparr>) new_tester))
     = 18"
proof -
  let ?s = "\<lambda>n::nat. Responds \<lparr>status_code = 404, json_body = None, stream = []\<rparr>"
  let ?s' = "\<lambda>n::nat. Responds \<lparr>status_code = 201,
          json_body = Some (JDict [(''id'', JStr ''j1'')]), stream = []\<rparr>"
  have j: "submitted_id (job_submission (?s 7)) = JNull"
    by (simp add: submitted_id_def job_submission_def attempt_def)
  have j': "submitted_id (job_submission (?s' 7)) = JStr ''j1''"
    by (simp add: submitted_id_def job_submission_def attempt_def resp_json_def and_then_def)
  have z: "requests_sent new_tester = 0"
    by (simp add: new_tester_def)
  show ?thesis
    using suite_counts [of new_tester "''x''" "Inl OtherError" ?s]
      suite_counts [of "snd (run_all_tests ?s new_tester)" "''x''" "Inl OtherError" ?s]
      suite_counts [of new_tester "''x''" "Inl OtherError" ?s']
      suite_counts [of "snd (run_all_tests ?s' new_tester)" "''x''" "Inl OtherError" ?s']
      j j' z
    by simp
qed

section \<open>Properties of the triage\<close>

lemma and_then_Inr:
  "and_then m f = Inr y \<longleftrightarrow> (\<exists>x. m = Inr x \<and> f x = Inr y)"
  by (cases m) (simp_all add: and_then_def)

lemma select_jobs_Inr:
  "select_jobs wanted js = Inr r \<Longrightarrow> r = with_status wanted js"
proof (induction js arbitrary: r)
  case Nil
  then show ?case by (simp add: with_status_def)
next
  case (Cons job js)
  from Cons.prems obtain s rest where
    s: "py_get job ''status'' JNull = Inr s" and
    rest: "select_jobs wanted js = Inr rest" and
    r: "r = (if s \<in> set wanted then job # rest else rest)"
    by (auto simp: and_then_Inr)
  from rest have "rest = with_status wanted js" by (rule Cons.IH)
  with s r show ?case
    by (simp add: with_status_def job_field_def)
qed

lemma select_jobs_dicts:
  "select_jobs wanted js = Inr r \<Longrightarrow> job \<in> set js \<Longrightarrow> \<exists>kvs. job = JDict kvs"
proof (induction js arbitrary: r)
  case Nil
  then show ?case by simp
next
  case (Cons a js)
  from Cons.prems(1) obtain s rest where
    s: "py_get a ''status'' JNull = Inr s" and
    rest: "select_jobs wanted js = Inr rest"
    by (auto simp: and_then_Inr)
  from s have "\<exists>kvs. a = JDict kvs" by (cases a) simp_all
  with Cons.IH [OF rest] Cons.prems(2) show ?case by auto
qed

lemma py_iter_total:
  assumes "py_iter jobs = Inr js" and "py_len jobs = Inr n"
    and "js \<noteq> []" and "\<And>job. job \<in> set js \<Longrightarrow> \<exists>kvs. job = JDict kvs"
  shows "n = length js"
proof (cases jobs)
  case (JList xs)
  with assms show ?thesis by simp
next
  case (JStr s)
  with assms(1) have js: "js = map (\<lambda>c. JStr [c]) s" by simp
  with assms(3) obtain c where "JStr [c] \<in> set js" by (cases s) auto
  with assms(4) show ?thesis by blast
next
  case (JDict kvs)
  with assms(1) have js: "js = map (\<lambda>kv. JStr (fst kv)) kvs" by simp
  with assms(3) obtain k where "JStr k \<in> set js" by (cases kvs) auto
  with assms(4) show ?thesis by blast
qed (use assms in simp_all)

lemma analyze_failed_jobs_Saved:
  assumes "analyze_failed_jobs srv = Inr (Saved d)"
  shows "truthy (get_server_health (srv 0))"
    and "truthy (get_all_jobs (srv 1))"
    and "summary_total_jobs d = length (job_collection srv)"
    and "summary_failed d = length (with_status failed_statuses (job_collection srv))"
    and "summary_completed d = length (with_status completed_statuses (job_collection srv))"
    and "summary_pending d = length (with_status pending_statuses (job_collection srv))"
    and "with_status failed_statuses (job_collection srv) \<noteq> []"
    and "analyze_loop srv 2 (with_status failed_statuses (job_collection srv)) = Inr (failed_jobs d)"
proof -
  let ?h = "get_server_health (srv 0)" and ?jr = "get_all_jobs (srv 1)"
  from assms show h: "truthy ?h"
    by (auto simp: analyze_failed_jobs_def Let_def split: if_splits)
  from assms h show jr: "truthy ?jr"
    by (auto simp: analyze_failed_jobs_def Let_def and_then_Inr split: if_splits)
  from assms h jr obtain jobs n js fj cj pj infos where
    jobs: "py_get ?jr ''jobs'' (JList []) = Inr jobs" and
    n: "py_len jobs = Inr n" and
    js: "py_iter jobs = Inr js" and
    fj: "select_jobs failed_statuses js = Inr fj" and
    cj: "select_jobs completed_statuses js = Inr cj" and
    pj: "select_jobs pending_statuses js = Inr pj" and
    ne: "fj \<noteq> []" and
    infos: "analyze_loop srv 2 fj = Inr infos" and
    d: "summary_total_jobs d = n" "summary_failed d = length fj"
       "summary_completed d = length cj" "summary_pending d = length pj"
       "failed_jobs d = infos"
    by (auto simp: analyze_failed_jobs_def Let_def and_then_Inr split: if_splits)
  from jobs js have coll: "job_collection srv = js"
    by (simp add: job_collection_def and_then_def)
  have fj': "fj = with_status failed_statuses js" using fj by (rule select_jobs_Inr)
  have cj': "cj = with_status completed_statuses js" using cj by (rule select_jobs_Inr)
  have pj': "pj = with_status pending_statuses js" using pj by (rule select_jobs_Inr)
  from ne fj' have "js \<noteq> []" by (auto simp: with_status_def)
  with js n select_jobs_dicts [OF fj] have "n = length js"
    by (intro py_iter_total) auto
  with d coll fj' cj' pj' ne infos
  show "summary_total_jobs d = length (job_collection srv)"
    and "summary_failed d = length (with_status failed_statuses (job_collection srv))"
    and "summary_completed d = length (with_status completed_statuses (job_collection srv))"
    and "summary_pending d = length (with_status pending_statuses (job_collection srv))"
    and "with_status failed_statuses (job_collection srv) \<noteq> []"
    and "analyze_loop srv 2 (with_status failed_statuses (job_collection srv)) = Inr (failed_jobs d)"
    by simp_all
qed

lemma build_job_info_Inr:
  assumes "build_job_info job jid dets = Inr info"
  shows "job_id info = jid" and "status info = job_field ''status'' job"
    and "job_details info = dets"
    and "resolve_error_message job dets = Inr (error_message info)"
  using assms by (auto simp: build_job_info_def and_then_Inr job_field_def)

lemma analyze_loop_Inr:
  "analyze_loop srv n js = Inr infos \<Longrightarrow>
     length infos = length js
     \<and> (\<forall>i<length js.
           job_id (infos ! i) = job_field ''id'' (js ! i)
           \<and> status (infos ! i) = job_field ''status'' (js ! i)
           \<and> job_details (infos ! i) = get_job_details (srv (n + i))
           \<and> resolve_error_message (js ! i) (get_job_details (srv (n + i)))
               = Inr (error_message (infos ! i)))"
proof (induction js arbitrary: n infos)
  case Nil
  then show ?case by simp
next
  case (Cons job js)
  from Cons.prems obtain jid info rest where
    jid: "py_get job ''id'' JNull = Inr jid" and
    info: "build_job_info job jid (get_job_details (srv n)) = Inr info" and
    rest: "analyze_loop srv (Suc n) js = Inr rest" and
    infos: "infos = info # rest"
    by (auto simp: and_then_Inr Let_def)
  note ih = Cons.IH [OF rest]
  note b = build_job_info_Inr [OF info]
  show ?case
  proof (intro conjI allI impI)
    show "length infos = length (job # js)" using ih infos by simp
  next
    fix i assume "i < length (job # js)"
    then show "job_id (infos ! i) = job_field ''id'' ((job # js) ! i)"
      and "status (infos ! i) = job_field ''status'' ((job # js) ! i)"
      and "job_details (infos ! i) = get_job_details (srv (n + i))"
      and "resolve_error_message ((job # js) ! i) (get_job_details (srv (n + i)))
               = Inr (error_message (infos ! i))"
      using ih b jid infos by (cases i; simp add: job_field_def)+
  qed
qed

lemma status_partition:
  "length (with_status completed_statuses js) + length (with_status pending_statuses js)
     + length (with_status failed_statuses js) + length (uncounted_jobs js) = length js"
  by (induction js)
    (auto simp: with_status_def uncounted_jobs_def failed_statuses_def completed_statuses_def
      pending_statuses_def)

lemma saved_statuses:
  assumes "analyze_failed_jobs srv = Inr (Saved d)"
  shows "map status (failed_jobs d)
       = map (job_field ''status'') (with_status failed_statuses (job_collection srv))"
    and "map job_id (failed_jobs d)
       = map (job_field ''id'') (with_status failed_statuses (job_collection srv))"
    and "length (failed_jobs d) = length (with_status failed_statuses (job_collection srv))"
proof -
  note loop = analyze_loop_Inr [OF analyze_failed_jobs_Saved(8) [OF assms]]
  from loop show len: "length (failed_jobs d) = length (with_status failed_statuses (job_collection srv))"
    by simp
  from loop len show "map status (failed_jobs d)
       = map (job_field ''status'') (with_status failed_statuses (job_collection srv))"
    by (intro nth_equalityI) simp_all
  from loop len show "map job_id (failed_jobs d)
       = map (job_field ''id'') (with_status failed_statuses (job_collection srv))"
    by (intro nth_equalityI) simp_all
qed

lemma select_jobs_ok:
  "list_all is_dict js \<Longrightarrow> select_jobs wanted js = Inr (with_status wanted js)"
proof (induction js)
  case Nil
  show ?case by (simp add: with_status_def)
next
  case (Cons job js)
  then obtain kvs where "job = JDict kvs" by (cases job) simp_all
  with Cons show ?case
    by (simp add: and_then_def with_status_def job_field_def)
qed

lemma str_items_ok: "list_all is_str xs \<Longrightarrow> \<exists>ss. str_items xs = Inr ss"
proof (induction xs)
  case Nil
  show ?case by simp
next
  case (Cons x xs)
  then obtain s where "x = JStr s" by (cases x) simp_all
  with Cons show ?case by (auto simp: and_then_def)
qed

lemma str_items_chars: "\<exists>ss. str_items (map (\<lambda>c. JStr [c]) s) = Inr ss"
  by (rule str_items_ok) (simp add: list_all_iff)

lemma str_items_keys: "\<exists>ss. str_items (map (\<lambda>kv. JStr (fst kv)) kvs) = Inr ss"
  by (rule str_items_ok) (simp add: list_all_iff)

lemma print_job_info_ok:
  assumes "joinable (pipelines info)"
  shows "print_job_info info = Inr ()"
proof (cases "pipelines info")
  case (JList xs)
  with assms str_items_ok [of xs] show ?thesis
    by (auto simp: print_job_info_def py_join_def and_then_def)
next
  case (JStr s)
  with str_items_chars [of s] show ?thesis
    by (auto simp: print_job_info_def py_join_def and_then_def)
next
  case (JDict kvs)
  with str_items_keys [of kvs] show ?thesis
    by (auto simp: print_job_info_def py_join_def and_then_def)
qed (use assms in \<open>simp_all add: print_job_info_def\<close>)

lemma joinable_pipelines:
  "joinable (job_field ''pipelines'' (JDict kvs)) \<Longrightarrow>
     joinable (case map_of kvs ''pipelines'' of None \<Rightarrow> JList [] | Some v \<Rightarrow> v)"
  by (simp add: job_field_def split: option.splits)

lemma resolve_error_message_ok:
  "message_readable (JDict kvs) dets \<Longrightarrow> \<exists>m. resolve_error_message (JDict kvs) dets = Inr m"
  by (cases dets) (auto simp: message_readable_def resolve_error_message_def and_then_def job_field_def)

lemma build_job_info_ok:
  assumes "message_readable (JDict kvs) dets"
  shows "\<exists>info. build_job_info (JDict kvs) jid dets = Inr info
           \<and> pipelines info = (case map_of kvs ''pipelines'' of None \<Rightarrow> JList [] | Some v \<Rightarrow> v)"
proof -
  from resolve_error_message_ok [OF assms] obtain m where
    "resolve_error_message (JDict kvs) dets = Inr m" ..
  then show ?thesis
    by (simp add: build_job_info_def and_then_def)
qed

lemma analyze_loop_ok:
  "list_all is_dict js \<Longrightarrow> details_usable srv n js \<Longrightarrow> \<exists>infos. analyze_loop srv n js = Inr infos"
proof (induction js arbitrary: n)
  case Nil
  show ?case by simp
next
  case (Cons job js)
  from Cons.prems(1) obtain kvs where job: "job = JDict kvs" by (cases job) simp_all
  from Cons.prems(2) have m: "message_readable (JDict kvs) (get_job_details (srv n))"
    and j: "joinable (job_field ''pipelines'' (JDict kvs))"
    and u: "details_usable srv (Suc n) js"
    by (simp_all add: job)
  from build_job_info_ok [OF m] obtain info where
    info: "build_job_info (JDict kvs) (case map_of kvs ''id'' of None \<Rightarrow> JNull | Some v \<Rightarrow> v)
             (get_job_details (srv n)) = Inr info"
    and p: "pipelines info = (case map_of kvs ''pipelines'' of None \<Rightarrow> JList [] | Some v \<Rightarrow> v)"
    by blast
  from p joinable_pipelines [OF j] have "print_job_info info = Inr ()"
    by (intro print_job_info_ok) simp
  moreover from Cons.IH [OF _ u] Cons.prems(1) obtain infos where
    "analyze_loop srv (Suc n) js = Inr infos" by auto
  ultimately show ?case using info
    by (simp add: job and_then_def Let_def)
qed

lemma job_collection_list:
  assumes "list_all is_dict (job_collection srv)" and "job_collection srv \<noteq> []"
  shows "\<exists>kvs. get_all_jobs (srv 1) = JDict kvs \<and> kvs \<noteq> []
           \<and> py_get (JDict kvs) ''jobs'' (JList []) = Inr (JList (job_collection srv))"
proof -
  let ?jr = "get_all_jobs (srv 1)" and ?js = "job_collection srv"
  from assms(2) obtain jobs where
    g: "py_get ?jr ''jobs'' (JList []) = Inr jobs" and i: "py_iter jobs = Inr ?js"
    by (auto simp: job_collection_def and_then_def split: sum.splits)
  from g obtain kvs where jr: "?jr = JDict kvs" by (cases ?jr) simp_all
  have jobs: "jobs = JList ?js"
  proof (cases jobs)
    case (JList xs)
    with i show ?thesis by simp
  next
    case (JStr s)
    with i have eq: "?js = map (\<lambda>c. JStr [c]) s" by simp
    with assms(2) obtain c where "JStr [c] \<in> set ?js" by (cases s) auto
    with assms(1) show ?thesis by (auto simp: list_all_iff)
  next
    case (JDict kvs')
    with i have eq: "?js = map (\<lambda>kv. JStr (fst kv)) kvs'" by simp
    with assms(2) obtain k where "JStr k \<in> set ?js" by (cases kvs') auto
    with assms(1) show ?thesis by (auto simp: list_all_iff)
  qed (use i in simp_all)
  from g jr jobs assms(2) have "kvs \<noteq> []" by auto
  with g jr jobs show ?thesis by simp
qed

lemma analyze_failed_jobs_writes:
  assumes "is_dict (get_server_health (srv 0))" and "truthy (get_server_health (srv 0))"
    and "list_all is_dict (job_collection srv)"
    and "with_status failed_statuses (job_collection srv) \<noteq> []"
    and "details_usable srv 2 (with_status failed_statuses (job_collection srv))"
  shows "\<exists>d. analyze_failed_jobs srv = Inr (Saved d)"
proof -
  let ?js = "job_collection srv"
  let ?F = "with_status failed_statuses ?js"
  from assms(4) have ne: "?js \<noteq> []" by (auto simp: with_status_def)
  from job_collection_list [OF assms(3) ne] obtain kvs where
    jr: "get_all_jobs (srv 1) = JDict kvs" and kvs: "kvs \<noteq> []" and
    jobs: "py_get (JDict kvs) ''jobs'' (JList []) = Inr (JList ?js)"
    by blast
  from assms(1) obtain hk where h: "get_server_health (srv 0) = JDict hk"
    by (cases "get_server_health (srv 0)") simp_all
  from assms(3) have "list_all is_dict ?F"
    by (simp add: with_status_def list_all_iff)
  from analyze_loop_ok [OF this assms(5)] obtain infos where
    loop: "analyze_loop srv 2 ?F = Inr infos" ..
  note sel = select_jobs_ok [OF assms(3)]
  have "analyze_failed_jobs srv
      = Inr (Saved \<lparr>server_url = API_BASE,
           server_version = (case map_of hk ''version'' of None \<Rightarrow> JNull | Some v \<Rightarrow> v),
           server_status = (case map_of hk ''status'' of None \<Rightarrow> JNull | Some v \<Rightarrow> v),
           summary_total_jobs = length ?js,
           summary_completed = length (with_status completed_statuses ?js),
           summary_pending = length (with_status pending_statuses ?js),
           summary_failed = length ?F,
           failed_jobs = infos\<rparr>)"
    unfolding analyze_failed_jobs_def Let_def h jr
    using assms(2,4) kvs jobs loop h
    by (simp add: and_then_def sel)
  then show ?thesis ..
qed

lemma bundle_written_Some:
  "bundle_written res = Some d \<longleftrightarrow> res = Inr (Saved d)"
  by (auto simp: bundle_written_def split: sum.splits run_end.splits)

lemma saved_counts:
  "analyze_failed_jobs srv = Inr (Saved d) \<Longrightarrow> counts_collection srv d"
  unfolding counts_collection_def
  using analyze_failed_jobs_Saved(3-6) [of srv d] saved_statuses [of srv d]
  by simp

text \<open>
  Claim C5, as amended. A run writes its diagnostics only for a collection that holds a
  failed job: with no job of status failed, error or cancelled it writes nothing. When the
  health is a non-empty JSON object, the jobs of the fetched collection are JSON objects,
  at least one of them is failed and the details and pipelines of the failed jobs are
  usable, the run does write its diagnostics. Whenever it writes them, they count the
  collection: failed, error and cancelled as failed, completed as completed, pending and
  processing as pending, all jobs as the total, and the failed count is the number of
  detail records, one for each failed job, in order, with the job's id and status. For two
  completed jobs, one failed and one pending the summary is completed 2, pending 1,
  failed 1, with one record.
\<close>

theorem bundle_histogram:
  "(with_status failed_statuses (job_collection srv) = [] \<longrightarrow>
      bundle_written (analyze_failed_jobs srv) = None)
   \<and> (is_dict (get_server_health (srv 0)) \<and> truthy (get_server_health (srv 0))
       \<and> list_all is_dict (job_collection srv)
       \<and> with_status failed_statuses (job_collection srv) \<noteq> []
       \<and> details_usable srv 2 (with_status failed_statuses (job_collection srv))
      \<longrightarrow> (\<exists>d'. analyze_failed_jobs srv = Inr (Saved d') \<and> counts_collection srv d'))
   \<and> (analyze_failed_jobs srv = Inr (Saved d) \<longrightarrow> counts_collection srv d)"
proof (intro conjI impI)
  assume "with_status failed_statuses (job_collection srv) = []"
  with analyze_failed_jobs_Saved(7) [of srv]
  have "\<And>d. analyze_failed_jobs srv \<noteq> Inr (Saved d)" by blast
  then have "\<And>d. bundle_written (analyze_failed_jobs srv) \<noteq> Some d"
    by (simp add: bundle_written_Some)
  then show "bundle_written (analyze_failed_jobs srv) = None" by blast
next
  assume "is_dict (get_server_health (srv 0)) \<and> truthy (get_server_health (srv 0))
       \<and> list_all is_dict (job_collection srv)
       \<and> with_status failed_statuses (job_collection srv) \<noteq> []
       \<and> details_usable srv 2 (with_status failed_statuses (job_collection srv))"
  then obtain d' where "analyze_failed_jobs srv = Inr (Saved d')"
    using analyze_failed_jobs_writes [of srv] by blast
  with saved_counts [of srv d']
  show "\<exists>d'. analyze_failed_jobs srv = Inr (Saved d') \<and> counts_collection srv d'"
    by blast
next
  assume "analyze_failed_jobs srv = Inr (Saved d)"
  then show "counts_collection srv d" by (rule saved_counts)
qed

text \<open>
  The claim as stated fails for a collection without a failed job: two completed jobs are
  fetched and the run ends with "No failed jobs found!", so that no diagnostics report
  them.
\<close>

theorem bundle_histogram_counterexample:
  "length (with_status completed_statuses (job_collection (\<lambda>n::nat.
     if n = 0 then Responds \<lparr>status_code = 200,
         json_body = Some (JDict [(''status'', JStr ''healthy''), (''version'', JStr ''1.0'')]),
         stream = []\<rparr>
     else if n = 1 then Responds \<lparr>status_code = 200,
         json_body = Some (JDict [(''jobs'', JList [
            JDict [(''id'', JStr ''a''), (''status'', JStr ''completed'')],
            JDict [(''id'', JStr ''c''), (''status'', JStr ''completed'')]])]), stream = []\<rparr>
     else Raises OtherError))) = 2
   \<and> analyze_failed_jobs (\<lambda>n::nat.
     if n = 0 then Responds \<lparr>status_code = 200,
         json_body = Some (JDict [(''status'', JStr ''healthy''), (''version'', JStr ''1.0'')]),
         stream = []\<rparr>
     else if n = 1 then Responds \<lparr>status_code = 200,
         json_body = Some (JDict [(''jobs'', JList [
            JDict [(''id'', JStr ''a''), (''status'', JStr ''completed'')],
            JDict [(''id'', JStr ''c''), (''status'', JStr ''completed'')]])]), stream = []\<rparr>
     else Raises OtherError) = Inr NoFailedJobs
   \<and> bundle_written (analyze_failed_jobs (\<lambda>n::nat.
     if n = 0 then Responds \<lparr>status_code = 200,
         json_body = Some (JDict [(''status'', JStr ''healthy''), (''version'', JStr ''1.0'')]),
         stream = []\<rparr>
     else if n = 1 then Responds \<lparr>status_code = 200,
         json_body = Some (JDict [(''jobs'', JList [
            JDict [(''id'', JStr ''a''), (''status'', JStr ''completed'')],
            JDict [(''id'', JStr ''c''), (''status'', JStr ''completed'')]])]), stream = []\<rparr>
     else Raises OtherError)) = None"
  by code_simp

theorem bundle_histogram_witness:
  "analyze_failed_jobs (\<lambda>n::nat.
     if n = 0 then Responds \<lparr>status_code = 200,
         json_body = Some (JDict [(''status'', JStr ''healthy''), (''version'', JStr ''1.0'')]),
         stream = []\<rparr>
     else if n = 1 then Responds \<lparr>status_code = 200,
         json_body = Some (JDict [(''jobs'', JList [
            JDict [(''id'', JStr ''a''), (''status'', JStr ''completed'')],
            JDict [(''id'', JStr ''b''), (''status'', JStr ''failed'')],
            JDict [(''id'', JStr ''c''), (''status'', JStr ''completed'')],
            JDict [(''id'', JStr ''d''), (''status'', JStr ''pending'')]])]), stream = []\<rparr>
     else Raises OtherError)
   = Inr (Saved \<lparr>server_url = ''http://localhost:18011'',
          server_version = JStr ''1.0'', server_status = JStr ''healthy'',
          summary_total_jobs = 4, summary_completed = 2,
          summary_pending = 1, summary_failed = 1,
          failed_jobs =
            [\<lparr>job_id = JStr ''b'', status = JStr ''failed'',
                created_at = JNull, updated_at = JNull,
                video_filename = JNull, pipelines = JList [],
                error_message = JNull, job_details = JNull\<rparr>]\<rparr>)
   \<and> (\<exists>d'. analyze_failed_jobs (\<lambda>n::nat.
     if n = 0 then Responds \<lparr>status_code = 200,
         json_body = Some (JDict [(''status'', JStr ''healthy'')]), stream = []\<rparr>
     else if n = 1 then Responds \<lparr>status_code = 200,
         json_body = Some (JDict [(''jobs'', JList [
            JDict [(''id'', JStr ''a''), (''status'', JStr ''failed''),
                   (''pipelines'', JList [JStr ''face'', JStr ''audio'']),
                   (''error_message'', JStr ''boom'')],
            JDict [(''id'', JStr ''b''), (''status'', JStr ''error'')],
            JDict [(''id'', JStr ''c''), (''status'', JStr ''completed'')],
            JDict [(''id'', JStr ''d''), (''status'', JStr ''cancelled'')],
            JDict [(''id'', JStr ''e''), (''status'', JStr ''processing'')]])]), stream = []\<rparr>
     else if n = 2 then Responds \<lparr>status_code = 200,
         json_body = Some (JDict [(''id'', JStr ''a''), (''error_message'', JStr ''OOM'')]),
         stream = []\<rparr>
     else if n = 3 then Responds \<lparr>status_code = 404, json_body = None, stream = []\<rparr>
     else Responds \<lparr>status_code = 200,
         json_body = Some (JDict [(''id'', JStr ''d''), (''error_message'', JStr ''disk'')]),
         stream = []\<rparr>) = Inr (Saved d')
       \<and> summary_failed d' = 3 \<and> summary_completed d' = 1 \<and> summary_pending d' = 1
       \<and> summary_total_jobs d' = 5 \<and> length (failed_jobs d') = 3
       \<and> map job_id (failed_jobs d') = [JStr ''a'', JStr ''b'', JStr ''d'']
       \<and> map status (failed_jobs d') = [JStr ''failed'', JStr ''error'', JStr ''cancelled''])
   \<and> counts_collection (\<lambda>n::nat.
     if n = 0 then Responds \<lparr>status_code = 200,
         json_body = Some (JDict [(''status'', JStr ''healthy''), (''version'', JStr ''1.0'')]),
         stream = []\<rparr>
     else if n = 1 then Responds \<lparr>status_code = 200,
         json_body = Some (JDict [(''jobs'', JList [
            JDict [(''id'', JStr ''a''), (''status'', JStr ''completed'')],
            JDict [(''id'', JStr ''b''), (''status'', JStr ''failed'')],
            JDict [(''id'', JStr ''c''), (''status'', JStr ''completed'')],
            JDict [(''id'', JStr ''d''), (''status'', JStr ''pending'')]])]), stream = []\<rparr>
     else Raises OtherError)
     \<lparr>server_url = ''http://localhost:18011'',
          server_version = JStr ''1.0'', server_status = JStr ''healthy'',
          summary_total_jobs = 4, summary_completed = 2,
          summary_pending = 1, summary_failed = 1,
          failed_jobs =
            [\<lparr>job_id = JStr ''b'', status = JStr ''failed'',
                created_at = JNull, updated_at = JNull,
                video_filename = JNull, pipelines = JList [],
                error_message = JNull, job_details = JNull\<rparr>]\<rparr>
   \<and> bundle_written (analyze_failed_jobs (\<lambda>n::nat. Raises OtherError)) = None"
proof -
  let ?srv1 = "\<lambda>n::nat.
     if n = 0 then Responds \<lparr>status_code = 200,
         json_body = Some (JDict [(''status'', JStr ''healthy''), (''version'', JStr ''1.0'')]),
         stream = []\<rparr>
     else if n = 1 then Responds \<lparr>status_code = 200,
         json_body = Some (JDict [(''jobs'', JList [
            JDict [(''id'', JStr ''a''), (''status'', JStr ''completed'')],
            JDict [(''id'', JStr ''b''), (''status'', JStr ''failed'')],
            JDict [(''id'', JStr ''c''), (''status'', JStr ''completed'')],
            JDict [(''id'', JStr ''d''), (''status'', JStr ''pending'')]])]), stream = []\<rparr>
     else Raises OtherError"
  let ?srv2 = "\<lambda>n::nat.
     if n = 0 then Responds \<lparr>status_code = 200,
         json_body = Some (JDict [(''status'', JStr ''healthy'')]), stream = []\<rparr>
     else if n = 1 then Responds \<lparr>status_code = 200,
         json_body = Some (JDict [(''jobs'', JList [
            JDict [(''id'', JStr ''a''), (''status'', JStr ''failed''),
                   (''pipelines'', JList [JStr ''face'', JStr ''audio'']),
                   (''error_message'', JStr ''boom'')],
            JDict [(''id'', JStr ''b''), (''status'', JStr ''error'')],
            JDict [(''id'', JStr ''c''), (''status'', JStr ''completed'')],
            JDict [(''id'', JStr ''d''), (''status'', JStr ''cancelled'')],
            JDict [(''id'', JStr ''e''), (''status'', JStr ''processing'')]])]), stream = []\<rparr>
     else if n = 2 then Responds \<lparr>status_code = 200,
         json_body = Some (JDict [(''id'', JStr ''a''), (''error_message'', JStr ''OOM'')]),
         stream = []\<rparr>
     else if n = 3 then Responds \<lparr>status_code = 404, json_body = None, stream = []\<rparr>
     else Responds \<lparr>status_code = 200,
         json_body = Some (JDict [(''id'', JStr ''d''), (''error_message'', JStr ''disk'')]),
         stream = []\<rparr>"
  have run1: "analyze_failed_jobs ?srv1
     = Inr (Saved \<lparr>server_url = ''http://localhost:18011'',
          server_version = JStr ''1.0'', server_status = JStr ''healthy'',
          summary_total_jobs = 4, summary_completed = 2,
          summary_pending = 1, summary_failed = 1,
          failed_jobs =
            [\<lparr>job_id = JStr ''b'', status = JStr ''failed'',
                created_at = JNull, updated_at = JNull,
                video_filename = JNull, pipelines = JList [],
                error_message = JNull, job_details = JNull\<rparr>]\<rparr>)"
    by code_simp
  have coll: "job_collection ?srv2 =
           [JDict [(''id'', JStr ''a''), (''status'', JStr ''failed''),
                   (''pipelines'', JList [JStr ''face'', JStr ''audio'']),
                   (''error_message'', JStr ''boom'')],
            JDict [(''id'', JStr ''b''), (''status'', JStr ''error'')],
            JDict [(''id'', JStr ''c''), (''status'', JStr ''completed'')],
            JDict [(''id'', JStr ''d''), (''status'', JStr ''cancelled'')],
            JDict [(''id'', JStr ''e''), (''status'', JStr ''processing'')]]"
    by (simp add: job_collection_def get_all_jobs_def fetch_json_def attempt_def
        raise_for_status_def resp_json_def and_then_def)
  have failed: "with_status failed_statuses (job_collection ?srv2) =
           [JDict [(''id'', JStr ''a''), (''status'', JStr ''failed''),
                   (''pipelines'', JList [JStr ''face'', JStr ''audio'']),
                   (''error_message'', JStr ''boom'')],
            JDict [(''id'', JStr ''b''), (''status'', JStr ''error'')],
            JDict [(''id'', JStr ''d''), (''status'', JStr ''cancelled'')]]"
    unfolding coll by (simp add: with_status_def job_field_def failed_statuses_def)
  have h1: "is_dict (get_server_health (?srv2 0)) \<and> truthy (get_server_health (?srv2 0))"
    by (simp add: get_server_health_def fetch_json_def attempt_def raise_for_status_def
        resp_json_def and_then_def)
  have h3: "list_all is_dict (job_collection ?srv2)"
    unfolding coll by simp
  have h4: "with_status failed_statuses (job_collection ?srv2) \<noteq> []"
    unfolding failed by simp
  have h5: "details_usable ?srv2 2 (with_status failed_statuses (job_collection ?srv2))"
    unfolding failed
    by (simp add: message_readable_def job_field_def get_job_details_def fetch_json_def
        attempt_def raise_for_status_def resp_json_def and_then_def eval_nat_numeral)
  from bundle_histogram [of ?srv2] h1 h3 h4 h5 obtain d' where
    run2: "analyze_failed_jobs ?srv2 = Inr (Saved d')" and c: "counts_collection ?srv2 d'"
    by blast
  from c have n: "summary_failed d' = 3 \<and> summary_completed d' = 1 \<and> summary_pending d' = 1
       \<and> summary_total_jobs d' = 5 \<and> length (failed_jobs d') = 3
       \<and> map job_id (failed_jobs d') = [JStr ''a'', JStr ''b'', JStr ''d'']
       \<and> map status (failed_jobs d') = [JStr ''failed'', JStr ''error'', JStr ''cancelled'']"
    unfolding counts_collection_def failed unfolding coll
    by (simp add: with_status_def job_field_def completed_statuses_def pending_statuses_def)
  show ?thesis
  proof (intro conjI exI [of _ d'])
    show "analyze_failed_jobs ?srv1
     = Inr (Saved \<lparr>server_url = ''http://localhost:18011'',
          server_version = JStr ''1.0'', server_status = JStr ''healthy'',
          summary_total_jobs = 4, summary_completed = 2,
          summary_pending = 1, summary_failed = 1,
          failed_jobs =
            [\<lparr>job_id = JStr ''b'', status = JStr ''failed'',
                created_at = JNull, updated_at = JNull,
                video_filename = JNull, pipelines = JList [],
                error_message = JNull, job_details = JNull\<rparr>]\<rparr>)"
      by (rule run1)
    show "analyze_failed_jobs ?srv2 = Inr (Saved d')" by (rule run2)
    from bundle_histogram [of ?srv1] run1
    show "counts_collection ?srv1 \<lparr>server_url = ''http://localhost:18011'',
          server_version = JStr ''1.0'', server_status = JStr ''healthy'',
          summary_total_jobs = 4, summary_completed = 2,
          summary_pending = 1, summary_failed = 1,
          failed_jobs =
            [\<lparr>job_id = JStr ''b'', status = JStr ''failed'',
                created_at = JNull, updated_at = JNull,
                video_filename = JNull, pipelines = JList [],
                error_message = JNull, job_details = JNull\<rparr>]\<rparr>"
      by blast
    have "job_collection (\<lambda>n::nat. Raises OtherError) = []"
      by (simp add: job_collection_def get_all_jobs_def fetch_json_def attempt_def and_then_def)
    then have "with_status failed_statuses (job_collection (\<lambda>n::nat. Raises OtherError)) = []"
      by (simp add: with_status_def)
    with bundle_histogram [of "\<lambda>n::nat. Raises OtherError"]
    show "bundle_written (analyze_failed_jobs (\<lambda>n::nat. Raises OtherError)) = None"
      by blast
  qed (use n in simp_all)
qed

text \<open>
  Claim C10. A job whose status is absent or is none of failed, error, cancelled,
  completed, pending and processing is counted in the total only: the three counts and the
  number of such jobs add up to the total, so with one such job the three counts sum to
  strictly less than the total. Every detail record is the record of a job whose status is
  failed, error or cancelled, and there are as many records as such jobs.
\<close>

theorem uncounted_statuses:
  assumes "analyze_failed_jobs srv = Inr (Saved d)"
  shows "summary_completed d + summary_pending d + summary_failed d
           + length (uncounted_jobs (job_collection srv)) = summary_total_jobs d
     \<and> (uncounted_jobs (job_collection srv) \<noteq> [] \<longrightarrow>
          summary_completed d + summary_pending d + summary_failed d < summary_total_jobs d)
     \<and> length (failed_jobs d) = length (with_status failed_statuses (job_collection srv))
     \<and> (\<forall>info \<in> set (failed_jobs d). status info \<in> set failed_statuses)"
proof -
  note s = analyze_failed_jobs_Saved(3-6) [OF assms]
  have sum: "summary_completed d + summary_pending d + summary_failed d
           + length (uncounted_jobs (job_collection srv)) = summary_total_jobs d"
    using status_partition [of "job_collection srv"] s by simp
  have "set (map status (failed_jobs d)) \<subseteq> set failed_statuses"
    unfolding saved_statuses(1) [OF assms] by (auto simp: with_status_def)
  then have "\<forall>info \<in> set (failed_jobs d). status info \<in> set failed_statuses"
    by auto
  with sum saved_statuses(3) [OF assms] show ?thesis
    by (cases "uncounted_jobs (job_collection srv)") auto
qed

theorem uncounted_statuses_witness:
  "analyze_failed_jobs (\<lambda>n::nat.
     if n = 0 then Responds \<lparr>status_code = 200,
         json_body = Some (JDict [(''status'', JStr ''healthy'')]), stream = []\<rparr>
     else if n = 1 then Responds \<lparr>status_code = 200,
         json_body = Some (JDict [(''jobs'', JList [
            JDict [(''id'', JStr ''a''), (''status'', JStr ''failed'')],
            JDict [(''id'', JStr ''b''), (''status'', JStr ''queued'')],
            JDict [(''id'', JStr ''c'')]])]), stream = []\<rparr>
     else Raises OtherError)
   = Inr (Saved \<lparr>server_url = ''http://localhost:18011'',
          server_version = JNull, server_status = JStr ''healthy'',
          summary_total_jobs = 3, summary_completed = 0,
          summary_pending = 0, summary_failed = 1,
          failed_jobs =
            [\<lparr>job_id = JStr ''a'', status = JStr ''failed'',
                created_at = JNull, updated_at = JNull,
                video_filename = JNull, pipelines = JList [],
                error_message = JNull, job_details = JNull\<rparr>]\<rparr>)
   \<and> length (uncounted_jobs (job_collection (\<lambda>n::nat.
     if n = 0 then Responds \<lparr>status_code = 200,
         json_body = Some (JDict [(''status'', JStr ''healthy'')]), stream = []\<rparr>
     else if n = 1 then Responds \<lparr>status_code = 200,
         json_body = Some (JDict [(''jobs'', JList [
            JDict [(''id'', JStr ''a''), (''status'', JStr ''failed'')],
            JDict [(''id'', JStr ''b''), (''status'', JStr ''queued'')],
            JDict [(''id'', JStr ''c'')]])]), stream = []\<rparr>
     else Raises OtherError))) = 2"
proof -
  let ?srv = "\<lambda>n::nat.
     if n = 0 then Responds \<lparr>status_code = 200,
         json_body = Some (JDict [(''status'', JStr ''healthy'')]), stream = []\<rparr>
     else if n = 1 then Responds \<lparr>status_code = 200,
         json_body = Some (JDict [(''jobs'', JList [
            JDict [(''id'', JStr ''a''), (''status'', JStr ''failed'')],
            JDict [(''id'', JStr ''b''), (''status'', JStr ''queued'')],
            JDict [(''id'', JStr ''c'')]])]), stream = []\<rparr>
     else Raises OtherError"
  let ?d = "\<lparr>server_url = ''http://localhost:18011'',
          server_version = JNull, server_status = JStr ''healthy'',
          summary_total_jobs = 3, summary_completed = 0,
          summary_pending = 0, summary_failed = 1,
          failed_jobs =
            [\<lparr>job_id = JStr ''a'', status = JStr ''failed'',
                created_at = JNull, updated_at = JNull,
                video_filename = JNull, pipelines = JList [],
                error_message = JNull, job_details = JNull\<rparr>]\<rparr>"
  have run: "analyze_failed_jobs ?srv = Inr (Saved ?d)"
    by code_simp
  from uncounted_statuses [OF run] run show ?thesis
    by simp
qed

lemma resolve_error_message_Inr:
  "resolve_error_message job dets = Inr x \<Longrightarrow> truthy dets \<Longrightarrow>
     x = (if truthy (job_field ''error_message'' job) then job_field ''error_message'' job
          else job_field ''error_message'' dets)"
  by (auto simp: resolve_error_message_def and_then_Inr job_field_def)

lemma resolve_error_message_dicts:
  "truthy (JDict b) \<Longrightarrow>
     resolve_error_message (JDict a) (JDict b) =
       Inr (if truthy (job_field ''error_message'' (JDict a))
            then job_field ''error_message'' (JDict a)
            else job_field ''error_message'' (JDict b))"
  by (simp add: resolve_error_message_def and_then_def job_field_def)

lemma saved_error_message:
  assumes "analyze_failed_jobs srv = Inr (Saved d)" and "i < length (failed_jobs d)"
  shows "job_details (failed_jobs d ! i) = get_job_details (srv (2 + i))"
    and "truthy (get_job_details (srv (2 + i))) \<Longrightarrow>
         error_message (failed_jobs d ! i) =
           (if truthy (job_field ''error_message''
                 (with_status failed_statuses (job_collection srv) ! i))
            then job_field ''error_message''
                 (with_status failed_statuses (job_collection srv) ! i)
            else job_field ''error_message'' (get_job_details (srv (2 + i))))"
proof -
  note loop = analyze_loop_Inr [OF analyze_failed_jobs_Saved(8) [OF assms(1)]]
  from loop assms(2) have i: "i < length (with_status failed_statuses (job_collection srv))"
    by simp
  with loop show "job_details (failed_jobs d ! i) = get_job_details (srv (2 + i))"
    by simp
  from loop i have "resolve_error_message (with_status failed_statuses (job_collection srv) ! i)
      (get_job_details (srv (2 + i))) = Inr (error_message (failed_jobs d ! i))"
    by simp
  then show "truthy (get_job_details (srv (2 + i))) \<Longrightarrow>
         error_message (failed_jobs d ! i) =
           (if truthy (job_field ''error_message''
                 (with_status failed_statuses (job_collection srv) ! i))
            then job_field ''error_message''
                 (with_status failed_statuses (job_collection srv) ! i)
            else job_field ''error_message'' (get_job_details (srv (2 + i))))"
    by (rule resolve_error_message_Inr)
qed

text \<open>
  Claim C3, as amended. For a failed job whose details were fetched (the fetch returned a
  true value), the error message of the job's record in the diagnostics is the job's own
  message when that is true, and the message of the details otherwise; the record keeps the
  details as fetched. A job without a message whose details say \<^verbatim>\<open>OOM\<close> resolves
  to \<^verbatim>\<open>OOM\<close>; with no message on either side the record holds \<^verbatim>\<open>None\<close>, and
  the words "No error message available" are printed on the console only. The statement
  leaves open what the record holds when the details could not be fetched.
\<close>

theorem resolved_error_message:
  "(truthy (JDict b) \<longrightarrow>
      resolve_error_message (JDict a) (JDict b) =
        Inr (if truthy (job_field ''error_message'' (JDict a))
             then job_field ''error_message'' (JDict a)
             else job_field ''error_message'' (JDict b)))
   \<and> (analyze_failed_jobs srv = Inr (Saved d) \<and> i < length (failed_jobs d) \<longrightarrow>
        job_details (failed_jobs d ! i) = get_job_details (srv (2 + i))
        \<and> (truthy (get_job_details (srv (2 + i))) \<longrightarrow>
             error_message (failed_jobs d ! i) =
               (if truthy (job_field ''error_message''
                     (with_status failed_statuses (job_collection srv) ! i))
                then job_field ''error_message''
                     (with_status failed_statuses (job_collection srv) ! i)
                else job_field ''error_message'' (get_job_details (srv (2 + i))))))"
  using resolve_error_message_dicts [of b a] saved_error_message [of srv d i]
  by blast

text \<open>
  The claim as stated fails for a failed job with no message on either side: the record of
  the diagnostics holds \<^verbatim>\<open>None\<close>, not the marker.
\<close>

theorem resolved_error_message_counterexample:
  "map_option (\<lambda>d. map error_message (failed_jobs d))
     (bundle_written (analyze_failed_jobs (\<lambda>n::nat.
       if n = 0 then Responds \<lparr>status_code = 200,
           json_body = Some (JDict [(''status'', JStr ''healthy'')]), stream = []\<rparr>
       else if n = 1 then Responds \<lparr>status_code = 200,
           json_body = Some (JDict [(''jobs'', JList [
              JDict [(''id'', JStr ''b''), (''status'', JStr ''failed'')]])]), stream = []\<rparr>
       else Responds \<lparr>status_code = 200,
           json_body = Some (JDict [(''id'', JStr ''b''), (''status'', JStr ''failed'')]),
           stream = []\<rparr>)))
     = Some [JNull]
   \<and> JNull \<noteq> JStr ''no error message available''"
  by code_simp

text \<open>
  Where the details could not be fetched the conditional expression yields \<^verbatim>\<open>None\<close>
  although the job has a message of its own.
\<close>

lemma detail_fetch_failed:
  "resolve_error_message (JDict [(''id'', JStr ''b''), (''error_message'', JStr ''disk full'')]) JNull = Inr JNull"
  by (simp add: resolve_error_message_def)

theorem resolved_error_message_witness:
  "resolve_error_message (JDict [(''id'', JStr ''b''), (''status'', JStr ''failed'')])
       (JDict [(''id'', JStr ''b''), (''error_message'', JStr ''OOM'')]) = Inr (JStr ''OOM'')
   \<and> resolve_error_message (JDict [(''id'', JStr ''b''), (''error_message'', JStr ''disk full'')])
       (JDict [(''id'', JStr ''b''), (''error_message'', JStr ''OOM'')]) = Inr (JStr ''disk full'')
   \<and> resolve_error_message (JDict [(''id'', JStr ''b'')]) (JDict [(''id'', JStr ''b'')]) = Inr JNull
   \<and> map_option (\<lambda>d. map error_message (failed_jobs d))
     (bundle_written (analyze_failed_jobs (\<lambda>n::nat.
       if n = 0 then Responds \<lparr>status_code = 200,
           json_body = Some (JDict [(''status'', JStr ''healthy'')]), stream = []\<rparr>
       else if n = 1 then Responds \<lparr>status_code = 200,
           json_body = Some (JDict [(''jobs'', JList [
              JDict [(''id'', JStr ''b''), (''status'', JStr ''failed'')]])]), stream = []\<rparr>
       else Responds \<lparr>status_code = 200,
           json_body = Some (JDict [(''id'', JStr ''b''), (''error_message'', JStr ''OOM'')]),
           stream = []\<rparr>)))
     = Some [JStr ''OOM'']"
proof -
  let ?srv = "\<lambda>n::nat.
       if n = 0 then Responds \<lparr>status_code = 200,
           json_body = Some (JDict [(''status'', JStr ''healthy'')]), stream = []\<rparr>
       else if n = 1 then Responds \<lparr>status_code = 200,
           json_body = Some (JDict [(''jobs'', JList [
              JDict [(''id'', JStr ''b''), (''status'', JStr ''failed'')]])]), stream = []\<rparr>
       else Responds \<lparr>status_code = 200,
           json_body = Some (JDict [(''id'', JStr ''b''), (''error_message'', JStr ''OOM'')]),
           stream = []\<rparr>"
  let ?d = "\<lparr>server_url = ''http://localhost:18011'',
          server_version = JNull, server_status = JStr ''healthy'',
          summary_total_jobs = 1, summary_completed = 0,
          summary_pending = 0, summary_failed = 1,
          failed_jobs =
            [\<lparr>job_id = JStr ''b'', status = JStr ''failed'',
                created_at = JNull, updated_at = JNull,
                video_filename = JNull, pipelines = JList [],
                error_message = JStr ''OOM'',
                job_details = JDict [(''id'', JStr ''b''), (''error_message'', JStr ''OOM'')]\<rparr>]\<rparr>"
  have run: "analyze_failed_jobs ?srv = Inr (Saved ?d)"
    by code_simp
  show ?thesis
    using resolved_error_message [of "[(''id'', JStr ''b''), (''error_message'', JStr ''OOM'')]"
        "[(''id'', JStr ''b''), (''status'', JStr ''failed'')]" ?srv ?d 0]
      resolved_error_message [of "[(''id'', JStr ''b''), (''error_message'', JStr ''OOM'')]"
        "[(''id'', JStr ''b''), (''error_message'', JStr ''disk full'')]" ?srv ?d 0]
      resolved_error_message [of "[(''id'', JStr ''b'')]" "[(''id'', JStr ''b'')]" ?srv ?d 0]
      run
    by (simp add: job_field_def bundle_written_def)
qed

lemma fetch_fails_None: "fetch_fails out \<Longrightarrow> fetch_json out = JNull"
  by (auto simp: fetch_fails_def fetch_json_def attempt_def raise_for_status_def resp_json_def
      and_then_def split: http_outcome.splits option.splits)

lemma fetch_json_truthy: "truthy (fetch_json out) \<Longrightarrow> \<not> fetch_fails out"
  using fetch_fails_None [of out] by auto

lemma health_fetch_fails:
  "\<not> truthy (get_server_health (srv 0)) \<Longrightarrow> analyze_failed_jobs srv = Inr CannotConnect"
  by (simp add: analyze_failed_jobs_def)

lemma jobs_fetch_fails:
  "\<not> truthy (get_all_jobs (srv 1)) \<Longrightarrow>
     analyze_failed_jobs srv = Inr CannotConnect
     \<or> analyze_failed_jobs srv = Inr FailedToFetchJobs
     \<or> analyze_failed_jobs srv = Inl OtherError"
  by (cases "get_server_health (srv 0)")
    (simp_all add: analyze_failed_jobs_def Let_def and_then_def)

text \<open>
  Claim C4, as amended. If the health fetch fails (the request raises, the status is a 4xx
  or 5xx code such as 500, or the body is not JSON) or returns a false value, the run ends
  at once with "Cannot connect to server" and writes no file. If the fetch of the job
  collection fails or returns a false value, the run ends without writing a file: with
  "Failed to fetch jobs", or earlier. A file is written only after both fetches succeeded
  and returned true values. A status outside 200 to 299 that is not an error status, with a
  JSON body, is not a failure of the fetch.
\<close>

theorem fatal_fetches:
  "(fetch_fails (srv 0) \<or> \<not> truthy (get_server_health (srv 0)) \<longrightarrow>
      analyze_failed_jobs srv = Inr CannotConnect
      \<and> bundle_written (analyze_failed_jobs srv) = None)
   \<and> (fetch_fails (srv 1) \<or> \<not> truthy (get_all_jobs (srv 1)) \<longrightarrow>
        (analyze_failed_jobs srv = Inr CannotConnect
         \<or> analyze_failed_jobs srv = Inr FailedToFetchJobs
         \<or> analyze_failed_jobs srv = Inl OtherError)
        \<and> bundle_written (analyze_failed_jobs srv) = None)
   \<and> (bundle_written (analyze_failed_jobs srv) = Some d \<longrightarrow>
        \<not> fetch_fails (srv 0) \<and> truthy (get_server_health (srv 0))
        \<and> \<not> fetch_fails (srv 1) \<and> truthy (get_all_jobs (srv 1)))"
proof -
  have h: "fetch_fails (srv 0) \<or> \<not> truthy (get_server_health (srv 0)) \<Longrightarrow>
      analyze_failed_jobs srv = Inr CannotConnect"
    using fetch_fails_None [of "srv 0"] health_fetch_fails [of srv]
    by (auto simp: get_server_health_def)
  have j: "fetch_fails (srv 1) \<or> \<not> truthy (get_all_jobs (srv 1)) \<Longrightarrow>
        analyze_failed_jobs srv = Inr CannotConnect
         \<or> analyze_failed_jobs srv = Inr FailedToFetchJobs
         \<or> analyze_failed_jobs srv = Inl OtherError"
    using fetch_fails_None [of "srv 1"] jobs_fetch_fails [of srv]
    by (auto simp: get_all_jobs_def)
  have w: "bundle_written (analyze_failed_jobs srv) = Some d \<Longrightarrow>
        \<not> fetch_fails (srv 0) \<and> truthy (get_server_health (srv 0))
        \<and> \<not> fetch_fails (srv 1) \<and> truthy (get_all_jobs (srv 1))"
    using analyze_failed_jobs_Saved(1,2) [of srv d] fetch_json_truthy [of "srv 0"]
      fetch_json_truthy [of "srv 1"]
    by (simp add: bundle_written_Some get_server_health_def get_all_jobs_def)
  have n: "\<And>res. res = Inr CannotConnect \<or> res = Inr FailedToFetchJobs \<or> res = Inl OtherError
        \<Longrightarrow> bundle_written res = None"
    by (auto simp: bundle_written_def)
  show ?thesis
  proof (intro conjI impI)
    assume a: "fetch_fails (srv 0) \<or> \<not> truthy (get_server_health (srv 0))"
    from h [OF a] show "analyze_failed_jobs srv = Inr CannotConnect" .
    from h [OF a] show "bundle_written (analyze_failed_jobs srv) = None"
      by (intro n) simp
  next
    assume a: "fetch_fails (srv 1) \<or> \<not> truthy (get_all_jobs (srv 1))"
    from j [OF a] show "analyze_failed_jobs srv = Inr CannotConnect
         \<or> analyze_failed_jobs srv = Inr FailedToFetchJobs
         \<or> analyze_failed_jobs srv = Inl OtherError" .
    from j [OF a] show "bundle_written (analyze_failed_jobs srv) = None"
      by (rule n)
  next
    assume a: "bundle_written (analyze_failed_jobs srv) = Some d"
    from w [OF a] show "\<not> fetch_fails (srv 0)" and "truthy (get_server_health (srv 0))"
      and "\<not> fetch_fails (srv 1)" and "truthy (get_all_jobs (srv 1))"
      by simp_all
  qed
qed

text \<open>
  The claim as stated fails for a health response with status 300 and a JSON body:
  \<^verbatim>\<open>raise_for_status\<close> does not raise, the body is taken as the health, and the
  diagnostics are written.
\<close>

theorem fatal_fetches_counterexample:
  "\<not> (200 \<le> status_code \<lparr>status_code = 300,
          json_body = Some (JDict [(''status'', JStr ''healthy'')]), stream = []\<rparr>
        \<and> status_code \<lparr>status_code = 300,
          json_body = Some (JDict [(''status'', JStr ''healthy'')]), stream = []\<rparr> < 300)
   \<and> bundle_written (analyze_failed_jobs (\<lambda>n::nat.
       if n = 0 then Responds \<lparr>status_code = 300,
           json_body = Some (JDict [(''status'', JStr ''healthy'')]), stream = []\<rparr>
       else if n = 1 then Responds \<lparr>status_code = 200,
           json_body = Some (JDict [(''jobs'', JList [
              JDict [(''id'', JStr ''b''), (''status'', JStr ''failed'')]])]), stream = []\<rparr>
       else Raises OtherError))
     = Some \<lparr>server_url = ''http://localhost:18011'',
          server_version = JNull, server_status = JStr ''healthy'',
          summary_total_jobs = 1, summary_completed = 0,
          summary_pending = 0, summary_failed = 1,
          failed_jobs =
            [\<lparr>job_id = JStr ''b'', status = JStr ''failed'',
                created_at = JNull, updated_at = JNull,
                video_filename = JNull, pipelines = JList [],
                error_message = JNull, job_details = JNull\<rparr>]\<rparr>"
proof
  show "\<not> (200 \<le> status_code \<lparr>status_code = 300,
          json_body = Some (JDict [(''status'', JStr ''healthy'')]), stream = []\<rparr>
        \<and> status_code \<lparr>status_code = 300,
          json_body = Some (JDict [(''status'', JStr ''healthy'')]), stream = []\<rparr> < 300)"
    by simp
  show "bundle_written (analyze_failed_jobs (\<lambda>n::nat.
       if n = 0 then Responds \<lparr>status_code = 300,
           json_body = Some (JDict [(''status'', JStr ''healthy'')]), stream = []\<rparr>
       else if n = 1 then Responds \<lparr>status_code = 200,
           json_body = Some (JDict [(''jobs'', JList [
              JDict [(''id'', JStr ''b''), (''status'', JStr ''failed'')]])]), stream = []\<rparr>
       else Raises OtherError))
     = Some \<lparr>server_url = ''http://localhost:18011'',
          server_version = JNull, server_status = JStr ''healthy'',
          summary_total_jobs = 1, summary_completed = 0,
          summary_pending = 0, summary_failed = 1,
          failed_jobs =
            [\<lparr>job_id = JStr ''b'', status = JStr ''failed'',
                created_at = JNull, updated_at = JNull,
                video_filename = JNull, pipelines = JList [],
                error_message = JNull, job_details = JNull\<rparr>]\<rparr>"
    by code_simp
qed

theorem fatal_fetches_witness:
  "analyze_failed_jobs (\<lambda>n::nat. Responds \<lparr>status_code = 500,
       json_body = Some (JDict [(''status'', JStr ''healthy'')]), stream = []\<rparr>)
     = Inr CannotConnect
   \<and> bundle_written (analyze_failed_jobs (\<lambda>n::nat. Responds \<lparr>status_code = 500,
       json_body = Some (JDict [(''status'', JStr ''healthy'')]), stream = []\<rparr>)) = None
   \<and> bundle_written (analyze_failed_jobs (\<lambda>n::nat.
       if n = 0 then Responds \<lparr>status_code = 200,
           json_body = Some (JDict [(''status'', JStr ''healthy'')]), stream = []\<rparr>
       else Raises Timeout)) = None"
proof -
  have a: "fetch_fails (Responds \<lparr>status_code = 500,
       json_body = Some (JDict [(''status'', JStr ''healthy'')]), stream = []\<rparr>)"
    by (simp add: fetch_fails_def)
  have b: "fetch_fails (Raises Timeout)"
    by (simp add: fetch_fails_def)
  show ?thesis
    using fatal_fetches [of "\<lambda>n::nat. Responds \<lparr>status_code = 500,
       json_body = Some (JDict [(''status'', JStr ''healthy'')]), stream = []\<rparr>"]
      fatal_fetches [of "\<lambda>n::nat.
       if n = 0 then Responds \<lparr>status_code = 200,
           json_body = Some (JDict [(''status'', JStr ''healthy'')]), stream = []\<rparr>
       else Raises Timeout"] a b
    by (simp add: bundle_written_def)
qed

end
